theory Spec2Isabelle
  imports
    Main
    "HOL-Library.Char_ord"
    "HOL-Library.List_Lexorder"
    "HOL-Library.Multiset"
    "HOL-Library.Signed_Division"
begin

section \<open>The binary search of \<^verbatim>\<open>p1.cpp\<close>\<close>

text \<open>
  \<^verbatim>\<open>binarySearch\<close> works on a \<^verbatim>\<open>std::vector<int>\<close> with \<^verbatim>\<open>int\<close> indices. The elements
  are only compared, so they are modelled as \<open>int\<close>. The indices \<^verbatim>\<open>low\<close>, \<^verbatim>\<open>high\<close> and
  \<^verbatim>\<open>mid\<close> are 32-bit signed integers: they are modelled as \<open>int\<close> with every arithmetic
  step checked against the range of \<^verbatim>\<open>int\<close>. Signed overflow and an out-of-range
  \<^verbatim>\<open>arr[mid]\<close> are undefined behaviour in C++ and are faults of the model.
\<close>

datatype fault = SignedOverflow | OutOfRange

definition INT_MAX :: int where
  "INT_MAX = 2147483647"

definition INT_MIN :: int where
  "INT_MIN = - 2147483648"

definition int_ok :: "int \<Rightarrow> bool" where
  "int_ok x \<longleftrightarrow> INT_MIN \<le> x \<and> x \<le> INT_MAX"

text \<open>
  The conversion of an out-of-range value to \<^verbatim>\<open>int\<close> keeps the value modulo \<open>2 ^ 32\<close>
  (two's complement).
\<close>

definition to_int32 :: "int \<Rightarrow> int" where
  "to_int32 x = (x + 2 ^ 31) mod 2 ^ 32 - 2 ^ 31"

text \<open>
  The \<^verbatim>\<open>while (low <= high)\<close> loop. C++ division truncates towards zero, which is
  \<open>sdiv\<close>.
\<close>

function binarySearch_loop :: "int list \<Rightarrow> int \<Rightarrow> int \<Rightarrow> int \<Rightarrow> fault + int" where
  "binarySearch_loop arr target low high =
     (if low \<le> high then
        (if \<not> int_ok (high - low) then Inl SignedOverflow
         else
           let mid = low + (high - low) sdiv 2 in
           if \<not> int_ok mid then Inl SignedOverflow
           else if mid < 0 \<or> int (length arr) \<le> mid then Inl OutOfRange
           else if arr ! nat mid = target then Inr mid
           else if arr ! nat mid < target then
             (if \<not> int_ok (mid + 1) then Inl SignedOverflow
              else binarySearch_loop arr target (mid + 1) high)
           else
             (if \<not> int_ok (mid - 1) then Inl SignedOverflow
              else binarySearch_loop arr target low (mid - 1)))
      else Inr (- 1))"
  by pat_completeness auto
termination
proof (relation "measure (\<lambda>(arr, target, low, high). nat (high - low + 1))")
  show "wf (measure (\<lambda>(arr, target, low, high). nat (high - low + 1)))"
    by simp
next
  fix arr :: "int list" and target low high mid :: int
  assume "low \<le> high" and "mid = low + (high - low) sdiv 2"
  then have "low \<le> mid"
    by (simp add: signed_divide_int_def sgn_if)
  with \<open>low \<le> high\<close>
  show "((arr, target, mid + 1, high), (arr, target, low, high))
          \<in> measure (\<lambda>(arr, target, low, high). nat (high - low + 1))"
    by simp
next
  fix arr :: "int list" and target low high mid :: int
  assume "low \<le> high" and "mid = low + (high - low) sdiv 2"
  then have "mid \<le> high"
    by (simp add: signed_divide_int_def sgn_if) linarith
  with \<open>low \<le> high\<close>
  show "((arr, target, low, mid - 1), (arr, target, low, high))
          \<in> measure (\<lambda>(arr, target, low, high). nat (high - low + 1))"
    by simp
qed

declare binarySearch_loop.simps [simp del]

text \<open>
  \<^verbatim>\<open>int high = arr.size() - 1\<close>: the subtraction is done in \<^verbatim>\<open>size_t\<close> (64 bits,
  wrapping), and the result is converted to \<^verbatim>\<open>int\<close>.
\<close>

definition binarySearch :: "int list \<Rightarrow> int \<Rightarrow> fault + int" where
  "binarySearch arr target =
     (let low = 0;
          high = to_int32 ((int (length arr) - 1) mod 2 ^ 64)
      in binarySearch_loop arr target low high)"

section \<open>The text adventure of \<^verbatim>\<open>prime.cpp\<close>\<close>

subsection \<open>Characters and strings\<close>

text \<open>
  A \<^verbatim>\<open>std::string\<close> is a list of bytes. \<^verbatim>\<open>::tolower\<close> and \<^verbatim>\<open>isspace\<close> are those of the
  "C" locale (the program never sets another one): \<^verbatim>\<open>tolower\<close> adds 32 to the bytes
  \<^verbatim>\<open>'A'\<close> to \<^verbatim>\<open>'Z'\<close> and keeps every other byte; the whitespace bytes are the space and
  the bytes 9 to 13 (tab, line feed, vertical tab, form feed, carriage return).
\<close>

definition tolower :: "char \<Rightarrow> char" where
  "tolower c = (if CHR ''A'' \<le> c \<and> c \<le> CHR ''Z'' then char_of (of_char c + (32::nat)) else c)"

definition isspace :: "char \<Rightarrow> bool" where
  "isspace c \<longleftrightarrow> c = CHR '' '' \<or> (CHR 0x09 \<le> c \<and> c \<le> CHR 0x0D)"

definition endl :: string where
  "endl = [CHR 0x0A]"

subsection \<open>\<^verbatim>\<open>class Item\<close>\<close>

record Item =
  name :: string
  description :: string
  takeable :: bool

definition Item_new :: "string \<Rightarrow> string \<Rightarrow> bool \<Rightarrow> Item" where
  "Item_new n desc tk = \<lparr>name = n, description = desc, takeable = tk\<rparr>"

definition Item_look :: "Item \<Rightarrow> string" where
  "Item_look item = description item @ endl"

definition getNameLower :: "Item \<Rightarrow> string" where
  "getNameLower item = map tolower (name item)"

subsection \<open>\<^verbatim>\<open>class Room\<close>\<close>

text \<open>
  The rooms live in the vector \<^verbatim>\<open>allRooms\<close> of the game, which is the store of the model.
  A \<^verbatim>\<open>Room*\<close> is \<open>None\<close> for \<^verbatim>\<open>nullptr\<close> and \<open>Some i\<close> for the address of the room
  \<open>allRooms ! i\<close>. Following a null pointer or a pointer to no room of the store is
  undefined behaviour in C++ and a fault of the model. A \<^verbatim>\<open>std::shared_ptr<Item>\<close> is an
  \<open>Item option\<close>; an item never changes after its construction, so the vectors hold the
  items themselves.

  \<^verbatim>\<open>std::map<std::string, Room*>\<close> is an association list kept in the order of its keys,
  the order in which the map is iterated; \<open><\<close> on strings compares bytes
  lexicographically, as \<^verbatim>\<open>std::string\<close> does.
\<close>

type_synonym room_ptr = "nat option"

record Room =
  name :: string
  description :: string
  exits :: "(string \<times> room_ptr) list"
  items :: "Item list"

datatype pointer_fault = NullPointer | DanglingPointer

definition deref :: "Room list \<Rightarrow> room_ptr \<Rightarrow> pointer_fault + Room" where
  "deref rooms p =
     (case p of
        None \<Rightarrow> Inl NullPointer
      | Some i \<Rightarrow> if i < length rooms then Inr (rooms ! i) else Inl DanglingPointer)"

text \<open>\<^verbatim>\<open>m[k] = v\<close> on a \<^verbatim>\<open>std::map\<close>: the entry of \<open>k\<close> is overwritten or inserted.\<close>

fun map_assign :: "string \<Rightarrow> 'v \<Rightarrow> (string \<times> 'v) list \<Rightarrow> (string \<times> 'v) list" where
  "map_assign k v [] = [(k, v)]"
| "map_assign k v ((k', v') # m) =
     (if k < k' then (k, v) # (k', v') # m
      else if k = k' then (k, v) # m
      else (k', v') # map_assign k v m)"

definition Room_new :: "string \<Rightarrow> string \<Rightarrow> Room" where
  "Room_new n desc = \<lparr>Room.name = n, description = desc, exits = [], items = []\<rparr>"

definition printSeparator :: "char \<Rightarrow> nat \<Rightarrow> string" where
  "printSeparator c width = replicate width c @ endl"

text \<open>The loop over the exits in \<^verbatim>\<open>Room::look\<close>; \<^verbatim>\<open>pair.second->name\<close> follows the pointer.\<close>

fun look_exits :: "Room list \<Rightarrow> (string \<times> room_ptr) list \<Rightarrow> pointer_fault + string" where
  "look_exits rooms [] = Inr []"
| "look_exits rooms ((direction, target) # rest) =
     (case deref rooms target of
        Inl f \<Rightarrow> Inl f
      | Inr t \<Rightarrow>
          (case look_exits rooms rest of
             Inl f \<Rightarrow> Inl f
           | Inr s \<Rightarrow> Inr ('' - '' @ direction @ '' ('' @ Room.name t @ '')'' @ endl @ s)))"

definition Room_look :: "Room list \<Rightarrow> Room \<Rightarrow> pointer_fault + string" where
  "Room_look rooms r =
     (case look_exits rooms (exits r) of
        Inl f \<Rightarrow> Inl f
      | Inr exit_lines \<Rightarrow>
          Inr (printSeparator CHR ''-'' 50
               @ ''Location: '' @ Room.name r @ endl
               @ printSeparator CHR ''-'' 50
               @ Room.description r @ endl
               @ (if items r \<noteq> []
                  then endl @ ''You see here:'' @ endl
                       @ concat (map (\<lambda>item. '' - '' @ Item.name item @ endl) (items r))
                  else endl @ ''The room seems empty of loose items.'' @ endl)
               @ (if exits r \<noteq> []
                  then endl @ ''Exits:'' @ endl @ exit_lines
                  else endl @ ''There are no obvious exits.'' @ endl)
               @ printSeparator CHR ''-'' 50))"

definition Room_getExit :: "Room \<Rightarrow> string \<Rightarrow> room_ptr" where
  "Room_getExit r direction =
     (case map_of (exits r) direction of
        Some target \<Rightarrow> target
      | None \<Rightarrow> None)"

definition Room_addExit :: "string \<Rightarrow> room_ptr \<Rightarrow> Room \<Rightarrow> Room" where
  "Room_addExit direction targetRoom r =
     (let lowerDir = map tolower direction
      in r\<lparr>exits := map_assign lowerDir targetRoom (exits r)\<rparr>)"

definition Room_addItem :: "Item option \<Rightarrow> Room \<Rightarrow> Room" where
  "Room_addItem item r =
     (case item of
        Some i \<Rightarrow> r\<lparr>items := items r @ [i]\<rparr>
      | None \<Rightarrow> r)"

text \<open>The loop of \<^verbatim>\<open>Room::removeItem\<close>: the first match is erased and returned.\<close>

fun removeItem_loop :: "string \<Rightarrow> Item list \<Rightarrow> Item option \<times> Item list" where
  "removeItem_loop itemNameLower [] = (None, [])"
| "removeItem_loop itemNameLower (it # rest) =
     (if getNameLower it = itemNameLower then (Some it, rest)
      else (case removeItem_loop itemNameLower rest of
              (foundItem, rest') \<Rightarrow> (foundItem, it # rest')))"

definition Room_removeItem :: "string \<Rightarrow> Room \<Rightarrow> Item option \<times> Room" where
  "Room_removeItem itemNameLower r =
     (case removeItem_loop itemNameLower (items r) of
        (foundItem, items') \<Rightarrow> (foundItem, r\<lparr>items := items'\<rparr>))"

fun findItem_loop :: "string \<Rightarrow> Item list \<Rightarrow> Item option" where
  "findItem_loop itemNameLower [] = None"
| "findItem_loop itemNameLower (item # rest) =
     (if getNameLower item = itemNameLower then Some item
      else findItem_loop itemNameLower rest)"

definition Room_findItem :: "string \<Rightarrow> Room \<Rightarrow> Item option" where
  "Room_findItem itemNameLower r = findItem_loop itemNameLower (items r)"

subsection \<open>\<^verbatim>\<open>class Player\<close> and the state of the game\<close>

record Player =
  currentLocation :: room_ptr
  inventory :: "Item list"

definition Player_new :: "room_ptr \<Rightarrow> Player" where
  "Player_new startRoom = \<lparr>currentLocation = startRoom, inventory = []\<rparr>"

text \<open>
  The members of \<^verbatim>\<open>class Game\<close>, and with them the text written so far to \<^verbatim>\<open>std::cout\<close>
  and \<^verbatim>\<open>std::cerr\<close>. The methods of the player read and change rooms through pointers,
  so they work on this state.
\<close>

record Game =
  player :: Player
  allRooms :: "Room list"
  gameOver :: bool
  cout :: string
  cerr :: string

definition print :: "string \<Rightarrow> Game \<Rightarrow> Game" where
  "print s g = g\<lparr>cout := cout g @ s\<rparr>"

definition Player_moveTo :: "room_ptr \<Rightarrow> Game \<Rightarrow> pointer_fault + bool \<times> Game" where
  "Player_moveTo newRoom g =
     (case newRoom of
        Some _ \<Rightarrow>
          (let g1 = g\<lparr>player := (player g)\<lparr>currentLocation := newRoom\<rparr>\<rparr>
           in case deref (allRooms g1) (currentLocation (player g1)) of
                Inl f \<Rightarrow> Inl f
              | Inr r \<Rightarrow>
                  (case Room_look (allRooms g1) r of
                     Inl f \<Rightarrow> Inl f
                   | Inr text \<Rightarrow> Inr (True, print text g1)))
      | None \<Rightarrow> Inr (False, g))"

definition Player_go :: "string \<Rightarrow> Game \<Rightarrow> pointer_fault + Game" where
  "Player_go direction g =
     (case currentLocation (player g) of
        None \<Rightarrow>
          Inr (print (''You seem to be floating in the void... something is wrong.'' @ endl) g)
      | Some _ \<Rightarrow>
          (let lowerDir = map tolower direction
           in case deref (allRooms g) (currentLocation (player g)) of
                Inl f \<Rightarrow> Inl f
              | Inr here \<Rightarrow>
                  (case Room_getExit here lowerDir of
                     Some next \<Rightarrow>
                       (case Player_moveTo (Some next)
                               (print (''You move '' @ lowerDir @ ''...'' @ endl @ endl) g) of
                          Inl f \<Rightarrow> Inl f
                        | Inr (_, g') \<Rightarrow> Inr g')
                   | None \<Rightarrow> Inr (print (''You can't go that way.'' @ endl) g))))"

definition Player_look :: "Game \<Rightarrow> pointer_fault + Game" where
  "Player_look g =
     (case currentLocation (player g) of
        Some _ \<Rightarrow>
          (case deref (allRooms g) (currentLocation (player g)) of
             Inl f \<Rightarrow> Inl f
           | Inr here \<Rightarrow>
               (case Room_look (allRooms g) here of
                  Inl f \<Rightarrow> Inl f
                | Inr text \<Rightarrow> Inr (print text g)))
      | None \<Rightarrow> Inr (print (''You can't see anything, you're nowhere.'' @ endl) g))"

definition Player_lookAt :: "string \<Rightarrow> Game \<Rightarrow> pointer_fault + Game" where
  "Player_lookAt itemName g =
     (let lowerName = map tolower itemName
      in case findItem_loop lowerName (inventory (player g)) of
           Some item \<Rightarrow> Inr (print (Item_look item) g)
         | None \<Rightarrow>
             (let notSeen =
                    print (''You don't see any '' @ [CHR 0x27] @ itemName @ [CHR 0x27]
                           @ '' here.'' @ endl) g
              in case currentLocation (player g) of
                   Some _ \<Rightarrow>
                     (case deref (allRooms g) (currentLocation (player g)) of
                        Inl f \<Rightarrow> Inl f
                      | Inr here \<Rightarrow>
                          (case Room_findItem lowerName here of
                             Some itemInRoom \<Rightarrow> Inr (print (Item_look itemInRoom) g)
                           | None \<Rightarrow> Inr notSeen))
                 | None \<Rightarrow> Inr notSeen))"

definition Player_take :: "string \<Rightarrow> Game \<Rightarrow> pointer_fault + Game" where
  "Player_take itemName g =
     (case currentLocation (player g) of
        None \<Rightarrow> Inr (print (''There's nothing here to take.'' @ endl) g)
      | Some loc \<Rightarrow>
          (let lowerName = map tolower itemName
           in case deref (allRooms g) (Some loc) of
                Inl f \<Rightarrow> Inl f
              | Inr here \<Rightarrow>
                  (case Room_findItem lowerName here of
                     None \<Rightarrow>
                       Inr (print (''You don't see a '' @ [CHR 0x27] @ itemName @ [CHR 0x27]
                                   @ '' here to take.'' @ endl) g)
                   | Some itemToTake \<Rightarrow>
                       if \<not> takeable itemToTake
                       then Inr (print (''You can't take the '' @ Item.name itemToTake
                                        @ ''.'' @ endl) g)
                       else
                         (case Room_removeItem lowerName here of
                            (removed, here') \<Rightarrow>
                              (let g1 = g\<lparr>allRooms := (allRooms g)[loc := here']\<rparr>
                               in case removed of
                                    Some item \<Rightarrow>
                                      Inr (print (''You picked up the '' @ Item.name item
                                                  @ ''.'' @ endl)
                                             (g1\<lparr>player := (player g1)
                                                  \<lparr>inventory := inventory (player g1) @ [item]\<rparr>\<rparr>))
                                  | None \<Rightarrow>
                                      Inr (print (''Something went wrong trying to take the ''
                                                  @ itemName @ ''.'' @ endl) g1))))))"

definition Player_showInventory :: "Game \<Rightarrow> Game" where
  "Player_showInventory g =
     print (printSeparator CHR ''='' 40
            @ ''Inventory:'' @ endl
            @ (if inventory (player g) = []
               then ''You are not carrying anything.'' @ endl
               else concat (map (\<lambda>item. '' - '' @ Item.name item @ endl) (inventory (player g))))
            @ printSeparator CHR ''='' 40) g"

definition Player_hasItem :: "string \<Rightarrow> Game \<Rightarrow> bool" where
  "Player_hasItem itemNameLower g \<longleftrightarrow> findItem_loop itemNameLower (inventory (player g)) \<noteq> None"

subsection \<open>\<^verbatim>\<open>class Game\<close>: the parser and the commands\<close>

text \<open>
  \<^verbatim>\<open>ss >> word\<close> skips the leading whitespace and reads up to the next whitespace or the
  end of the line. \<^verbatim>\<open>std::getline(ss, remaining)\<close> then reads up to the first line feed;
  it reads nothing when the stream is at its end or the extraction of the word failed.
  \<^verbatim>\<open>find_first_not_of(' ')\<close> with \<^verbatim>\<open>substr\<close> drops the leading spaces (only spaces).
\<close>

definition parseInput :: "string \<Rightarrow> string \<times> string" where
  "parseInput input =
     (let skipped = dropWhile isspace input;
          word = takeWhile (\<lambda>c. \<not> isspace c) skipped;
          after = dropWhile (\<lambda>c. \<not> isspace c) skipped;
          verb = (if word \<noteq> [] then map tolower word else []);
          remaining = (if after = [] then [] else takeWhile (\<lambda>c. c \<noteq> CHR 0x0A) after);
          noun = dropWhile (\<lambda>c. c = CHR '' '') remaining
      in (verb, noun))"

definition printHelp :: "Game \<Rightarrow> Game" where
  "printHelp g =
     print (printSeparator CHR ''*'' 40
            @ ''Available Commands:'' @ endl
            @ ''  look          : Describe the current room and items.'' @ endl
            @ ''  look at [item]: Describe a specific item.'' @ endl
            @ ''  go [direction]: Move in a direction (e.g., 'go north').'' @ endl
            @ ''  take [item]   : Pick up an item.'' @ endl
            @ ''  inventory / i : Show items you are carrying.'' @ endl
            @ ''  help / ?      : Show this help message.'' @ endl
            @ ''  quit / exit   : Leave the game.'' @ endl
            @ printSeparator CHR ''*'' 40) g"

text \<open>
  Standard input is the list of the lines still to be read. A command that reads no
  line leaves it as it is.
\<close>

definition no_input :: "string list \<Rightarrow> pointer_fault + Game \<Rightarrow> pointer_fault + Game \<times> string list" where
  "no_input cin r = (case r of Inl f \<Rightarrow> Inl f | Inr g \<Rightarrow> Inr (g, cin))"

text \<open>
  In the quit branch \<^verbatim>\<open>std::getline(std::cin, confirmation)\<close> leaves the fresh string
  empty when no line is left.
\<close>

definition handleCommand ::
  "string \<Rightarrow> string \<Rightarrow> Game \<Rightarrow> string list \<Rightarrow> pointer_fault + Game \<times> string list" where
  "handleCommand verb noun g cin =
     (if verb = ''quit'' \<or> verb = ''exit'' then
        (let g1 = print ''Are you sure you want to quit? (yes/no): '' g;
             line = (case cin of [] \<Rightarrow> [] | l # _ \<Rightarrow> l);
             cin' = (case cin of [] \<Rightarrow> [] | _ # ls \<Rightarrow> ls);
             confirmation = map tolower line
         in if confirmation = ''yes'' \<or> confirmation = ''y''
            then Inr (print (endl @ ''Goodbye! Thanks for playing.'' @ endl)
                        (g1\<lparr>gameOver := True\<rparr>), cin')
            else Inr (print (''Okay, continuing game.'' @ endl) g1, cin'))
      else if verb = ''look'' then
        (if noun = [] then no_input cin (Player_look g)
         else no_input cin (Player_lookAt noun g))
      else if verb = ''go'' \<or> verb = ''move'' \<or> verb = ''walk'' then
        (if noun = [] then Inr (print (''Go where? (e.g., 'go north')'' @ endl) g, cin)
         else no_input cin (Player_go noun g))
      else if verb = ''take'' \<or> verb = ''get'' \<or> verb = ''pickup'' then
        (if noun = [] then Inr (print (''Take what?'' @ endl) g, cin)
         else no_input cin (Player_take noun g))
      else if verb = ''inventory'' \<or> verb = ''i'' then Inr (Player_showInventory g, cin)
      else if verb = ''help'' \<or> verb = ''?'' then Inr (printHelp g, cin)
      else Inr (print (''Sorry, I don't understand '' @ [CHR 0x27] @ verb @ [CHR 0x27]
                       @ ''. Try 'help' for commands.'' @ endl) g, cin))"

subsection \<open>\<^verbatim>\<open>Game::createWorld\<close>\<close>

text \<open>
  \<^verbatim>\<open>createWorld\<close> makes the items and the rooms, pushes the rooms on the empty
  \<^verbatim>\<open>allRooms\<close> in the order of their creation, and then links and fills them through
  their pointers. The name of a room below is its address: its index in \<^verbatim>\<open>allRooms\<close>.
\<close>

definition update_room ::
  "room_ptr \<Rightarrow> (Room \<Rightarrow> Room) \<Rightarrow> Room list \<Rightarrow> pointer_fault + Room list" where
  "update_room p f rooms =
     (case p of
        None \<Rightarrow> Inl NullPointer
      | Some i \<Rightarrow>
          if i < length rooms then Inr (rooms[i := f (rooms ! i)]) else Inl DanglingPointer)"

definition addExit_at :: "nat \<Rightarrow> string \<Rightarrow> nat \<Rightarrow> Room list \<Rightarrow> pointer_fault + Room list" where
  "addExit_at room direction target = update_room (Some room) (Room_addExit direction (Some target))"

definition addItem_at :: "nat \<Rightarrow> Item \<Rightarrow> Room list \<Rightarrow> pointer_fault + Room list" where
  "addItem_at room item = update_room (Some room) (Room_addItem (Some item))"

fun statements ::
  "(Room list \<Rightarrow> pointer_fault + Room list) list \<Rightarrow> Room list \<Rightarrow> pointer_fault + Room list" where
  "statements [] rooms = Inr rooms"
| "statements (st # rest) rooms =
     (case st rooms of
        Inl f \<Rightarrow> Inl f
      | Inr rooms' \<Rightarrow> statements rest rooms')"

subsection \<open>The items of \<^verbatim>\<open>createWorld\<close>\<close>

definition key :: Item where
  "key = Item_new ''Rusty Key''
     (''A small, tarnished key. It looks old.'') True"

definition map_item :: Item where
  "map_item = Item_new ''Torn Map''
     (''A piece of parchment with crude drawings. Part of it is missing.'') True"

definition torch :: Item where
  "torch = Item_new ''Dim Torch''
     (''An old wooden torch, casting a weak, flickering light.'') True"

definition sword :: Item where
  "sword = Item_new ''Iron Sword''
     (''A basic iron sword. It's seen better days but still functional.'') True"

definition shield :: Item where
  "shield = Item_new ''Wooden Shield''
     (''A simple round wooden shield.'') True"

definition potion :: Item where
  "potion = Item_new ''Red Potion''
     (''A small vial containing a bubbling red liquid.'') True"

definition book :: Item where
  "book = Item_new ''Dusty Book''
     (''A heavy tome bound in cracked leather. The title is illegible.'') True"

definition coin :: Item where
  "coin = Item_new ''Gold Coin''
     (''A shiny gold coin.'') True"

definition gem :: Item where
  "gem = Item_new ''Blue Gem''
     (''A sparkling blue gem.'') True"

definition scroll :: Item where
  "scroll = Item_new ''Ancient Scroll''
     (''A fragile scroll covered in strange symbols.'') True"

definition statue :: Item where
  "statue = Item_new ''Stone Statue''
     (''A large statue of a forgotten king, covered in moss.'') False"

definition fountain :: Item where
  "fountain = Item_new ''Dry Fountain''
     (''An ornate fountain, now dry and filled with leaves.'') False"

definition altar :: Item where
  "altar = Item_new ''Stone Altar''
     (''A flat stone altar with strange carvings.'') False"

definition tapestry :: Item where
  "tapestry = Item_new ''Faded Tapestry''
     (''A large, moth-eaten tapestry depicting a hunting scene.'') False"

definition painting :: Item where
  "painting = Item_new ''Oil Painting''
     (''A painting of a stern-looking nobleman. His eyes seem to follow you.'') False"

definition well :: Item where
  "well = Item_new ''Deep Well''
     (''A dark well. You can't see the bottom.'') False"

definition table :: Item where
  "table = Item_new ''Wooden Table''
     (''A sturdy wooden table.'') False"

definition chair :: Item where
  "chair = Item_new ''Rickety Chair''
     (''An old wooden chair that looks unsafe to sit on.'') False"

definition bed :: Item where
  "bed = Item_new ''Straw Bed''
     (''A simple bed made of straw. Doesn't look comfortable.'') False"

definition fireplace :: Item where
  "fireplace = Item_new ''Cold Fireplace''
     (''A large stone fireplace, full of ashes.'') False"

subsection \<open>The rooms of \<^verbatim>\<open>createWorld\<close>\<close>

definition start_cell_description :: string where
  "start_cell_description =
     ''You are in a small, damp stone cell. The air is cold and smells of'' @ '' mildew.''
     @ endl @ ''A single barred window is high on one wall, letting in faint'' @ '' moonlight.''
     @ endl @ ''The only exit seems to be a heavy wooden door to the north.''"

definition corridor_1_description :: string where
  "corridor_1_description =
     ''A narrow stone corridor stretches ahead. Torches flicker dimly on the'' @ '' walls.''
     @ endl @ ''It continues north and south.''"

definition guard_room_description :: string where
  "guard_room_description =
     ''This looks like it was a guard room. An overturned table and a broken''
     @ '' chair lie on the floor.'' @ endl
     @ ''There's an exit west and the corridor continues south.''"

definition armory_description :: string where
  "armory_description =
     ''This small room is clearly an armory, though mostly empty now.'' @ endl
     @ ''Racks line the walls, but only a few items remain.'' @ endl
     @ ''An exit leads east back to the guard room.''"

definition main_hall_description :: string where
  "main_hall_description =
     ''A large, echoing hall. Dust motes dance in the beams of light (if'' @ '' any).'' @ endl
     @ ''Faded tapestries hang on the walls. Exits lead north, south, and east.''"

definition kitchen_description :: string where
  "kitchen_description =
     ''This was once a kitchen. Pots and pans lie scattered around.'' @ endl
     @ ''A large, cold fireplace dominates one wall.'' @ endl
     @ ''An exit leads west back to the Main Hall.''"

definition pantry_description :: string where
  "pantry_description =
     ''A small pantry adjoining the kitchen. Shelves line the walls, mostly''
     @ '' empty except for cobwebs and dust.'' @ endl
     @ ''A single exit leads south to the kitchen.''"

definition library_description :: string where
  "library_description =
     ''Rows of tall bookshelves fill this room, though many books are''
     @ '' missing or destroyed.'' @ endl @ ''The air smells of old paper and dust.'' @ endl
     @ ''An exit leads west from the Main Hall.''"

definition study_description :: string where
  "study_description =
     ''A small, cluttered study. A large wooden desk sits against one wall.'' @ endl
     @ ''Papers are scattered everywhere.'' @ endl
     @ ''An exit leads south back to the library.''"

definition courtyard_description :: string where
  "courtyard_description =
     ''You step outside into a courtyard overgrown with weeds and thorny'' @ '' bushes.'' @ endl
     @ ''A dry fountain sits in the center.'' @ endl
     @ ''Exits lead north (back into the Main Hall) and east (to a path).''"

definition garden_path_description :: string where
  "garden_path_description =
     ''A winding path through what was once a garden. It's wild and untamed'' @ '' now.'' @ endl
     @ ''The path continues east and west (back to the courtyard).''"

definition deep_forest_description :: string where
  "deep_forest_description =
     ''The path ends abruptly at the edge of a dark, imposing forest.'' @ endl
     @ ''The trees are thick and block out much of the light. '' @ endl @ ''You feel watched.''
     @ endl @ ''Going back west is the only clear option for now.''"

definition cellar_stairs_description :: string where
  "cellar_stairs_description =
     ''Stone steps lead down into darkness from the main hall (south exit).'' @ endl
     @ ''The air is noticeably colder here.'' @ endl @ ''Stairs go down, and back up (north).''"

definition wine_cellar_description :: string where
  "wine_cellar_description =
     ''Rows of empty wine racks line the walls of this cool cellar.'' @ endl
     @ ''Some broken bottles crunch underfoot.'' @ endl
     @ ''Stairs lead up. Another passage leads east.''"

definition storage_room_description :: string where
  "storage_room_description =
     ''A damp storage room filled with broken crates and barrels.'' @ endl
     @ ''It smells strongly of mildew.'' @ endl
     @ ''The only exit is west, back to the wine cellar.''"

definition hidden_passage_description :: string where
  "hidden_passage_description =
     ''A narrow, secret passage behind a loose stone in the storage room''
     @ '' (requires finding/action - not implemented yet).'' @ endl
     @ ''It's pitch black without a light source.'' @ endl
     @ ''Exits lead west (back to storage) and north.''"

definition underground_stream_description :: string where
  "underground_stream_description =
     ''The passage opens into a small cavern where a slow-moving underground''
     @ '' stream flows.'' @ endl @ ''The water looks surprisingly clear.'' @ endl
     @ ''A passage leads south.''"

definition outer_gate_description :: string where
  "outer_gate_description =
     ''You've reached a large, rusted iron gate, seemingly the main''
     @ '' entrance/exit to this place.'' @ endl
     @ ''It appears stuck or locked (not implemented).'' @ endl
     @ ''Path leads back south into the Courtyard.''"

definition tower_base_description :: string where
  "tower_base_description =
     ''The base of a crumbling stone tower. Rubble lies scattered around.'' @ endl
     @ ''There's a doorway leading inside (north) and the Garden Path is to'' @ '' the west.''"

definition tower_stairs_description :: string where
  "tower_stairs_description =
     ''A winding stone staircase climbs upwards inside the tower.'' @ endl
     @ ''It looks unstable in places.'' @ endl @ ''Stairs go up and down (south).''"

definition tower_top_description :: string where
  "tower_top_description =
     ''You are at the top of the crumbling tower. The wind whistles through''
     @ '' gaps in the stone.'' @ endl
     @ ''You have a wide view of the surrounding area (mostly forest).'' @ endl
     @ ''Stairs lead down.''"

definition start_cell :: nat where
  "start_cell = 0"

definition corridor_1 :: nat where
  "corridor_1 = 1"

definition guard_room :: nat where
  "guard_room = 2"

definition armory :: nat where
  "armory = 3"

definition main_hall :: nat where
  "main_hall = 4"

definition kitchen :: nat where
  "kitchen = 5"

definition pantry :: nat where
  "pantry = 6"

definition library :: nat where
  "library = 7"

definition study :: nat where
  "study = 8"

definition courtyard :: nat where
  "courtyard = 9"

definition garden_path :: nat where
  "garden_path = 10"

definition deep_forest :: nat where
  "deep_forest = 11"

definition cellar_stairs :: nat where
  "cellar_stairs = 12"

definition wine_cellar :: nat where
  "wine_cellar = 13"

definition storage_room :: nat where
  "storage_room = 14"

definition hidden_passage :: nat where
  "hidden_passage = 15"

definition underground_stream :: nat where
  "underground_stream = 16"

definition outer_gate :: nat where
  "outer_gate = 17"

definition tower_base :: nat where
  "tower_base = 18"

definition tower_stairs :: nat where
  "tower_stairs = 19"

definition tower_top :: nat where
  "tower_top = 20"

definition new_rooms :: "Room list" where
  "new_rooms =
     [Room_new ''Damp Cell'' start_cell_description,
      Room_new ''Narrow Corridor'' corridor_1_description,
      Room_new ''Guard Room'' guard_room_description,
      Room_new ''Small Armory'' armory_description,
      Room_new ''Main Hall'' main_hall_description,
      Room_new ''Abandoned Kitchen'' kitchen_description,
      Room_new ''Dusty Pantry'' pantry_description,
      Room_new ''Quiet Library'' library_description,
      Room_new ''Small Study'' study_description,
      Room_new ''Overgrown Courtyard'' courtyard_description,
      Room_new ''Garden Path'' garden_path_description,
      Room_new ''Deep Forest'' deep_forest_description,
      Room_new ''Cellar Stairs'' cellar_stairs_description,
      Room_new ''Wine Cellar'' wine_cellar_description,
      Room_new ''Storage Room'' storage_room_description,
      Room_new ''Hidden Passage'' hidden_passage_description,
      Room_new ''Underground Stream'' underground_stream_description,
      Room_new ''Outer Gate'' outer_gate_description,
      Room_new ''Tower Base'' tower_base_description,
      Room_new ''Tower Stairs'' tower_stairs_description,
      Room_new ''Tower Top'' tower_top_description]"

definition link_rooms :: "(Room list \<Rightarrow> pointer_fault + Room list) list" where
  "link_rooms =
     [addExit_at start_cell ''north'' corridor_1,
      addExit_at corridor_1 ''south'' start_cell,
      addExit_at corridor_1 ''north'' main_hall,
      addExit_at guard_room ''south'' corridor_1,
      addExit_at guard_room ''west'' armory,
      addExit_at start_cell ''north'' corridor_1,
      addExit_at corridor_1 ''south'' start_cell,
      addExit_at corridor_1 ''north'' guard_room,
      addExit_at guard_room ''south'' corridor_1,
      addExit_at guard_room ''west'' armory,
      addExit_at guard_room ''north'' main_hall,
      addExit_at armory ''east'' guard_room,
      addExit_at main_hall ''south'' guard_room,
      addExit_at main_hall ''east'' kitchen,
      addExit_at main_hall ''west'' library,
      addExit_at main_hall ''north'' courtyard,
      addExit_at main_hall ''down'' cellar_stairs,
      addExit_at kitchen ''west'' main_hall,
      addExit_at kitchen ''north'' pantry,
      addExit_at pantry ''south'' kitchen,
      addExit_at library ''east'' main_hall,
      addExit_at library ''north'' study,
      addExit_at study ''south'' library,
      addExit_at courtyard ''south'' main_hall,
      addExit_at courtyard ''east'' garden_path,
      addExit_at courtyard ''north'' outer_gate,
      addExit_at outer_gate ''south'' courtyard,
      addExit_at garden_path ''west'' courtyard,
      addExit_at garden_path ''east'' deep_forest,
      addExit_at garden_path ''north'' tower_base,
      addExit_at deep_forest ''west'' garden_path,
      addExit_at tower_base ''south'' garden_path,
      addExit_at tower_base ''north'' tower_stairs,
      addExit_at tower_stairs ''down'' tower_base,
      addExit_at tower_stairs ''up'' tower_top,
      addExit_at tower_top ''down'' tower_stairs,
      addExit_at cellar_stairs ''up'' main_hall,
      addExit_at cellar_stairs ''down'' wine_cellar,
      addExit_at wine_cellar ''up'' cellar_stairs,
      addExit_at wine_cellar ''east'' storage_room,
      addExit_at storage_room ''west'' wine_cellar,
      addExit_at storage_room ''east'' hidden_passage,
      addExit_at hidden_passage ''west'' storage_room,
      addExit_at hidden_passage ''north'' underground_stream,
      addExit_at underground_stream ''south'' hidden_passage]"

definition place_items :: "(Room list \<Rightarrow> pointer_fault + Room list) list" where
  "place_items =
     [addItem_at start_cell torch,
      addItem_at start_cell bed,
      addItem_at armory sword,
      addItem_at armory shield,
      addItem_at armory gem,
      addItem_at guard_room table,
      addItem_at guard_room chair,
      addItem_at guard_room coin,
      addItem_at main_hall tapestry,
      addItem_at main_hall statue,
      addItem_at kitchen fireplace,
      addItem_at kitchen potion,
      addItem_at pantry scroll,
      addItem_at library book,
      addItem_at study painting,
      addItem_at study key,
      addItem_at courtyard fountain,
      addItem_at courtyard well,
      addItem_at storage_room map_item,
      addItem_at wine_cellar altar]"

definition world_items :: "Item list" where
  "world_items =
     [key, map_item, torch, sword, shield, potion, book, coin, gem, scroll, statue, fountain, altar, tapestry, painting, well, table, chair, bed, fireplace]"

definition createWorld :: "Game \<Rightarrow> pointer_fault + Game" where
  "createWorld g =
     (case statements (link_rooms @ place_items) (allRooms g @ new_rooms) of
        Inl f \<Rightarrow> Inl f
      | Inr rooms \<Rightarrow> Inr (g\<lparr>allRooms := rooms\<rparr>))"

subsection \<open>The constructor and \<^verbatim>\<open>Game::run\<close>\<close>

definition Game_new :: "pointer_fault + Game" where
  "Game_new =
     (let g0 = \<lparr>player = Player_new None, allRooms = [], gameOver = False,
                cout = [], cerr = []\<rparr>;
          g1 = print (''Initializing game world...'' @ endl) g0
      in case createWorld g1 of
           Inl f \<Rightarrow> Inl f
         | Inr g2 \<Rightarrow>
             (case (if allRooms g2 \<noteq> []
                    then (let g3 = g2\<lparr>player := Player_new (Some 0)\<rparr>
                          in case deref (allRooms g3) (currentLocation (player g3)) of
                               Inl f \<Rightarrow> Inl f
                             | Inr start \<Rightarrow>
                                 Inr (print (''World created. Player starts in: ''
                                             @ Room.name start @ endl) g3))
                    else Inr (g2\<lparr>cerr := cerr g2 @ ''Error: No rooms were created!'' @ endl,
                                 gameOver := True\<rparr>)) of
                Inl f \<Rightarrow> Inl f
              | Inr g4 \<Rightarrow> Inr (print (''Type 'help' for commands.'' @ endl @ endl) g4)))"

text \<open>A command never puts a line back on standard input.\<close>

lemma handleCommand_cin:
  "handleCommand verb noun g cin = Inr (g', cin') \<Longrightarrow> length cin' \<le> length cin"
  by (auto simp: handleCommand_def no_input_def Let_def split: if_splits sum.splits list.splits)

text \<open>
  The \<^verbatim>\<open>while (!gameOver)\<close> loop of \<^verbatim>\<open>Game::run\<close>. It ends when the game is over or
  standard input has no line left; every turn reads at least one line, so it ends on
  every input.
\<close>

function run_loop :: "Game \<Rightarrow> string list \<Rightarrow> pointer_fault + Game" where
  "run_loop g cin =
     (if gameOver g then Inr g
      else
        (let g1 = print (endl @ ''> '') g
         in case cin of
              [] \<Rightarrow> Inr (print (''Error reading input or EOF detected. Quitting.'' @ endl) g1)
            | inputLine # cin1 \<Rightarrow>
                if inputLine = [] then run_loop g1 cin1
                else
                  (case parseInput inputLine of
                     (verb, noun) \<Rightarrow>
                       if verb \<noteq> [] then
                         (case handleCommand verb noun g1 cin1 of
                            Inl f \<Rightarrow> Inl f
                          | Inr (g2, cin2) \<Rightarrow> run_loop g2 cin2)
                       else if inputLine \<noteq> [] \<and> (\<exists>c \<in> set inputLine. c \<noteq> CHR '' '') then
                         run_loop (print (''Please enter a valid command. Try 'help'.'' @ endl) g1)
                           cin1
                       else run_loop g1 cin1)))"
  by pat_completeness auto
termination
proof (relation "measure (\<lambda>(g, cin). length cin)")
  show "wf (measure (\<lambda>(g, cin). length cin))"
    by simp
next
  fix g :: Game and cin cin1 cin2 :: "string list" and inputLine verb noun :: string
    and g1 g2 :: Game and res :: "Game \<times> string list"
  assume "cin = inputLine # cin1"
    and "handleCommand verb noun g1 cin1 = Inr res" and "(g2, cin2) = res"
  then have "length cin2 < length cin"
    using handleCommand_cin [of verb noun g1 cin1 g2 cin2] by simp
  then show "((g2, cin2), (g, cin)) \<in> measure (\<lambda>(g, cin). length cin)"
    by simp
qed simp_all

declare run_loop.simps [simp del]

definition Game_run :: "Game \<Rightarrow> string list \<Rightarrow> pointer_fault + Game" where
  "Game_run g cin =
     (if gameOver g
      then Inr (g\<lparr>cerr := cerr g @ ''Game cannot start due to initialization errors.'' @ endl\<rparr>)
      else (case Player_look g of
              Inl f \<Rightarrow> Inl f
            | Inr g1 \<Rightarrow> run_loop g1 cin))"

text \<open>Every item of the game: those lying in the rooms and those the player carries.\<close>

definition all_items :: "Game \<Rightarrow> Item list" where
  "all_items g = concat (map items (allRooms g)) @ inventory (player g)"

text \<open>
  The rooms as \<^verbatim>\<open>createWorld\<close> leaves them in the empty \<^verbatim>\<open>allRooms\<close> (it meets no fault,
  as shown below).
\<close>

definition world_rooms :: "Room list" where
  "world_rooms =
     (case statements (link_rooms @ place_items) new_rooms of
        Inr rooms \<Rightarrow> rooms
      | Inl f \<Rightarrow> [])"

text \<open>A sequence of calls of \<^verbatim>\<open>Player::take\<close>, one for each name.\<close>

fun take_sequence :: "string list \<Rightarrow> Game \<Rightarrow> pointer_fault + Game" where
  "take_sequence [] g = Inr g"
| "take_sequence (itemName # rest) g =
     (case Player_take itemName g of
        Inl f \<Rightarrow> Inl f
      | Inr g' \<Rightarrow> take_sequence rest g')"

section \<open>Properties of the binary search\<close>

lemma to_int32_small: "- (2 ^ 31) \<le> x \<Longrightarrow> x < 2 ^ 31 \<Longrightarrow> to_int32 x = x"
  by (simp add: to_int32_def)

lemma to_int32_size: "to_int32 ((int n - 1) mod 2 ^ 64) = to_int32 (int n - 1)"
proof -
  have "(2::int) ^ 32 dvd 2 ^ 64"
    by (rule le_imp_power_dvd) simp
  then have "((int n - 1) mod 2 ^ 64) mod 2 ^ 32 = (int n - 1) mod (2 ^ 32 :: int)"
    by (rule mod_mod_cancel)
  then have "((int n - 1) mod 2 ^ 64 + 2 ^ 31) mod 2 ^ 32
               = (int n - 1 + 2 ^ 31) mod (2 ^ 32 :: int)"
    by (rule mod_add_cong) simp
  then show ?thesis
    unfolding to_int32_def by (rule arg_cong)
qed

lemma sdiv_two_nonneg: "0 \<le> (x::int) \<Longrightarrow> x sdiv 2 = x div 2"
  by (simp add: signed_divide_int_def sgn_if)

text \<open>
  The loop invariant: the indices stay inside the vector (so nothing overflows), every
  element left of \<open>low\<close> is smaller than the target and every element right of \<open>high\<close>
  is greater.
\<close>

lemma binarySearch_loop_correct:
  assumes "sorted arr"
    and "int (length arr) \<le> INT_MAX"
    and "0 \<le> low" and "high < int (length arr)" and "low \<le> high + 1"
    and "\<forall>k < nat low. arr ! k < target"
    and "\<forall>k. nat (high + 1) \<le> k \<and> k < length arr \<longrightarrow> target < arr ! k"
  shows "(target \<in> set arr \<longrightarrow>
            (\<exists>i. binarySearch_loop arr target low high = Inr i \<and> 0 \<le> i
                 \<and> i < int (length arr) \<and> arr ! nat i = target))
       \<and> (target \<notin> set arr \<longrightarrow> binarySearch_loop arr target low high = Inr (- 1))"
  using assms
proof (induction arr target low high rule: binarySearch_loop.induct)
  case (1 arr target low high)
  show ?case
  proof (cases "low \<le> high")
    case False
    then have res: "binarySearch_loop arr target low high = Inr (- 1)"
      by (simp add: binarySearch_loop.simps)
    have "target \<notin> set arr"
    proof
      assume "target \<in> set arr"
      then obtain k where k: "k < length arr" "arr ! k = target"
        by (auto simp: in_set_conv_nth)
      from False "1.prems" have "k < nat low \<or> nat (high + 1) \<le> k"
        by linarith
      with k "1.prems" show False
        by auto
    qed
    with res show ?thesis
      by simp
  next
    case True
    define mid where "mid = low + (high - low) sdiv 2"
    from True have mid_eq: "mid = low + (high - low) div 2"
      by (simp add: mid_def sdiv_two_nonneg)
    from True mid_eq have mid_bounds: "low \<le> mid" "mid \<le> high"
      by simp_all
    from "1.prems" True have ok_diff: "int_ok (high - low)"
      by (simp add: int_ok_def INT_MAX_def INT_MIN_def)
    from "1.prems" mid_bounds have ok_mid: "int_ok mid" "int_ok (mid + 1)" "int_ok (mid - 1)"
      by (simp_all add: int_ok_def INT_MAX_def INT_MIN_def)
    from "1.prems" mid_bounds have in_range: "0 \<le> mid" "mid < int (length arr)"
      by simp_all
    then have nat_mid: "nat mid < length arr"
      by simp
    consider (found) "arr ! nat mid = target"
      | (less) "arr ! nat mid < target"
      | (greater) "target < arr ! nat mid"
      by linarith
    then show ?thesis
    proof cases
      case found
      with True ok_diff ok_mid in_range
      have "binarySearch_loop arr target low high = Inr mid"
        by (subst binarySearch_loop.simps) (simp add: mid_def [symmetric] Let_def)
      with found in_range nat_mid show ?thesis
        by (auto simp: in_set_conv_nth)
    next
      case less
      with True ok_diff ok_mid in_range
      have step: "binarySearch_loop arr target low high
                    = binarySearch_loop arr target (mid + 1) high"
        by (subst binarySearch_loop.simps) (simp add: mid_def [symmetric] Let_def)
      have left: "\<forall>k < nat (mid + 1). arr ! k < target"
      proof (intro allI impI)
        fix k assume "k < nat (mid + 1)"
        with in_range have "k \<le> nat mid"
          by simp
        with \<open>sorted arr\<close> nat_mid have "arr ! k \<le> arr ! nat mid"
          by (simp add: sorted_nth_mono)
        with less show "arr ! k < target"
          by simp
      qed
      have "(target \<in> set arr \<longrightarrow>
               (\<exists>i. binarySearch_loop arr target (mid + 1) high = Inr i \<and> 0 \<le> i
                    \<and> i < int (length arr) \<and> arr ! nat i = target))
          \<and> (target \<notin> set arr \<longrightarrow>
               binarySearch_loop arr target (mid + 1) high = Inr (- 1))"
      proof (rule "1.IH"(1) [OF True _ mid_def])
        show "\<not> \<not> int_ok (high - low)" "\<not> \<not> int_ok mid" "\<not> \<not> int_ok (mid + 1)"
          using ok_diff ok_mid by simp_all
        show "\<not> (mid < 0 \<or> int (length arr) \<le> mid)"
          using in_range by simp
        show "arr ! nat mid \<noteq> target" "arr ! nat mid < target"
          using less by simp_all
        show "sorted arr" "int (length arr) \<le> INT_MAX" "high < int (length arr)"
          using "1.prems" by simp_all
        show "0 \<le> mid + 1" "mid + 1 \<le> high + 1"
          using in_range mid_bounds by simp_all
        show "\<forall>k<nat (mid + 1). arr ! k < target"
          by (rule left)
        show "\<forall>k. nat (high + 1) \<le> k \<and> k < length arr \<longrightarrow> target < arr ! k"
          using "1.prems" by simp
      qed
      with step show ?thesis
        by simp
    next
      case greater
      with True ok_diff ok_mid in_range
      have step: "binarySearch_loop arr target low high
                    = binarySearch_loop arr target low (mid - 1)"
        by (subst binarySearch_loop.simps) (simp add: mid_def [symmetric] Let_def)
      have right: "\<forall>k. nat (mid - 1 + 1) \<le> k \<and> k < length arr \<longrightarrow> target < arr ! k"
      proof (intro allI impI)
        fix k assume "nat (mid - 1 + 1) \<le> k \<and> k < length arr"
        then have "nat mid \<le> k" "k < length arr"
          by simp_all
        with \<open>sorted arr\<close> have "arr ! nat mid \<le> arr ! k"
          by (simp add: sorted_nth_mono)
        with greater show "target < arr ! k"
          by simp
      qed
      have "(target \<in> set arr \<longrightarrow>
               (\<exists>i. binarySearch_loop arr target low (mid - 1) = Inr i \<and> 0 \<le> i
                    \<and> i < int (length arr) \<and> arr ! nat i = target))
          \<and> (target \<notin> set arr \<longrightarrow>
               binarySearch_loop arr target low (mid - 1) = Inr (- 1))"
      proof (rule "1.IH"(2) [OF True _ mid_def])
        show "\<not> \<not> int_ok (high - low)" "\<not> \<not> int_ok mid" "\<not> \<not> int_ok (mid - 1)"
          using ok_diff ok_mid by simp_all
        show "\<not> (mid < 0 \<or> int (length arr) \<le> mid)"
          using in_range by simp
        show "arr ! nat mid \<noteq> target" "\<not> arr ! nat mid < target"
          using greater by simp_all
        show "sorted arr" "int (length arr) \<le> INT_MAX" "0 \<le> low"
          using "1.prems" by simp_all
        show "mid - 1 < int (length arr)" "low \<le> mid - 1 + 1"
          using in_range mid_bounds by simp_all
        show "\<forall>k<nat low. arr ! k < target"
          using "1.prems" by simp
        show "\<forall>k. nat (mid - 1 + 1) \<le> k \<and> k < length arr \<longrightarrow> target < arr ! k"
          by (rule right)
      qed
      with step show ?thesis
        by simp
    qed
  qed
qed

text \<open>
  Claim C9, as the code has it: on a vector sorted in non-decreasing order whose size
  fits the \<^verbatim>\<open>int\<close> index type (fewer than \<open>2 ^ 31\<close> elements), \<^verbatim>\<open>binarySearch\<close>
  returns without fault an index at which the target occurs when the target is present,
  and \<open>-1\<close> when it is absent.
\<close>

theorem binarySearch_correct:
  assumes "sorted arr" and "length arr < 2 ^ 31"
  shows "(target \<in> set arr \<longrightarrow>
            (\<exists>i. binarySearch arr target = Inr i \<and> 0 \<le> i \<and> i < int (length arr)
                 \<and> arr ! nat i = target))
       \<and> (target \<notin> set arr \<longrightarrow> binarySearch arr target = Inr (- 1))"
proof -
  from assms(2) have len: "int (length arr) \<le> INT_MAX"
    by (simp add: INT_MAX_def)
  then have "to_int32 (int (length arr) - 1) = int (length arr) - 1"
    by (intro to_int32_small) (simp_all add: INT_MAX_def)
  then have high: "to_int32 ((int (length arr) - 1) mod 2 ^ 64) = int (length arr) - 1"
    by (simp only: to_int32_size)
  have "(target \<in> set arr \<longrightarrow>
            (\<exists>i. binarySearch_loop arr target 0 (int (length arr) - 1) = Inr i \<and> 0 \<le> i
                 \<and> i < int (length arr) \<and> arr ! nat i = target))
       \<and> (target \<notin> set arr \<longrightarrow>
            binarySearch_loop arr target 0 (int (length arr) - 1) = Inr (- 1))"
    using assms(1) len by (intro binarySearch_loop_correct) simp_all
  then show ?thesis
    by (simp only: binarySearch_def Let_def high)
qed

text \<open>The vector of \<^verbatim>\<open>main\<close>, searched for the values \<open>23\<close> and \<open>40\<close>.\<close>

theorem binarySearch_correct_witness:
  "sorted [2, 5, 8, 12, 16, 23, 38, 56, 72, 91 :: int]
   \<and> binarySearch [2, 5, 8, 12, 16, 23, 38, 56, 72, 91] 23 = Inr 5
   \<and> binarySearch [2, 5, 8, 12, 16, 23, 38, 56, 72, 91] 40 = Inr (- 1)"
proof -
  let ?arr = "[2, 5, 8, 12, 16, 23, 38, 56, 72, 91 :: int]"
  have s: "sorted ?arr"
    by simp
  have l: "length ?arr < 2 ^ 31"
    by simp
  have e: "binarySearch ?arr 23 = Inr 5"
    by (simp add: binarySearch_def to_int32_def binarySearch_loop.simps int_ok_def
        INT_MAX_def INT_MIN_def signed_divide_int_def)
  from binarySearch_correct [OF s l, of 40]
  have "binarySearch ?arr 40 = Inr (- 1)"
    by simp
  with s e show ?thesis
    by simp
qed

text \<open>
  Claim C9 as stated, for every sorted vector, fails on a vector of \<open>2 ^ 31 + 1\<close> zeros:
  \<^verbatim>\<open>arr.size() - 1\<close> is \<open>2 ^ 31\<close>, which the conversion to \<^verbatim>\<open>int\<close> turns into
  \<open>- 2 ^ 31\<close>; the loop body never runs and the search answers \<open>-1\<close> although the
  target is there.
\<close>

theorem binarySearch_huge_counterexample:
  "sorted (replicate (2 ^ 31 + 1) (0::int))
   \<and> 0 \<in> set (replicate (2 ^ 31 + 1) (0::int))
   \<and> binarySearch (replicate (2 ^ 31 + 1) 0) 0 = Inr (- 1)"
proof -
  have "to_int32 ((int (length (replicate (2 ^ 31 + 1) (0::int))) - 1) mod 2 ^ 64) = - (2 ^ 31)"
    by (simp add: to_int32_def)
  then have "binarySearch (replicate (2 ^ 31 + 1) 0) 0 = Inr (- 1)"
    by (simp add: binarySearch_def binarySearch_loop.simps)
  then show ?thesis
    by simp
qed

section \<open>Properties of the text adventure\<close>

subsection \<open>Lowercasing, computed\<close>

text \<open>\<^verbatim>\<open>tolower\<close> on the bits of a byte: an upper-case letter gets bit 5 set.\<close>

lemma tolower_Char:
  "tolower (Char b0 b1 b2 b3 b4 b5 b6 b7) =
     (if \<not> b7 \<and> b6 \<and> \<not> b5 \<and> (b0 \<or> b1 \<or> b2 \<or> b3 \<or> b4) \<and> \<not> (b4 \<and> b3 \<and> (b2 \<or> (b1 \<and> b0)))
      then Char b0 b1 b2 b3 b4 True b6 b7 else Char b0 b1 b2 b3 b4 b5 b6 b7)"
  by (cases b0; cases b1; cases b2; cases b3; cases b4; cases b5; cases b6; cases b7)
     (simp_all add: tolower_def less_eq_char_def char_of_def bit_0 bit_Suc)

subsection \<open>The exits of a room\<close>

lemma map_of_map_assign: "map_of (map_assign k v m) = (map_of m)(k \<mapsto> v)"
  by (induction m) (auto simp: fun_upd_twist)

lemma getExit_addExit_same:
  "Room_getExit (Room_addExit direction target r) (map tolower direction) = target"
  by (simp add: Room_getExit_def Room_addExit_def map_of_map_assign)

lemma getExit_addExit_other:
  "k \<noteq> map tolower direction \<Longrightarrow>
   Room_getExit (Room_addExit direction target r) k = Room_getExit r k"
  by (simp add: Room_getExit_def Room_addExit_def map_of_map_assign)

subsection \<open>Finding and removing an item\<close>

lemma findItem_loop_find:
  "findItem_loop n xs = find (\<lambda>item. getNameLower item = n) xs"
  by (induction xs) simp_all

lemma findItem_loop_None:
  "findItem_loop n xs = None \<longleftrightarrow> (\<forall>item \<in> set xs. getNameLower item \<noteq> n)"
  by (induction xs) simp_all

lemma findItem_loop_Some:
  "findItem_loop n xs = Some item \<longleftrightarrow>
     (\<exists>before after. xs = before @ item # after \<and> getNameLower item = n
        \<and> (\<forall>x \<in> set before. getNameLower x \<noteq> n))"
proof (induction xs)
  case Nil
  show ?case by simp
next
  case (Cons x xs)
  show ?case
  proof (cases "getNameLower x = n")
    case True
    have "(\<exists>before after. x # xs = before @ item # after \<and> getNameLower item = n
             \<and> (\<forall>y \<in> set before. getNameLower y \<noteq> n)) \<longleftrightarrow> x = item"
    proof
      assume "\<exists>before after. x # xs = before @ item # after \<and> getNameLower item = n
                \<and> (\<forall>y \<in> set before. getNameLower y \<noteq> n)"
      then obtain before after where *: "x # xs = before @ item # after"
        "\<forall>y \<in> set before. getNameLower y \<noteq> n"
        by blast
      with True show "x = item"
        by (cases before) auto
    next
      assume "x = item"
      with True have "x # xs = [] @ item # xs \<and> getNameLower item = n
                        \<and> (\<forall>y \<in> set []. getNameLower y \<noteq> n)"
        by simp
      then show "\<exists>before after. x # xs = before @ item # after \<and> getNameLower item = n
                   \<and> (\<forall>y \<in> set before. getNameLower y \<noteq> n)"
        by blast
    qed
    with True show ?thesis
      by simp
  next
    case False
    have "(\<exists>before after. x # xs = before @ item # after \<and> getNameLower item = n
             \<and> (\<forall>y \<in> set before. getNameLower y \<noteq> n))
          \<longleftrightarrow> (\<exists>before after. xs = before @ item # after \<and> getNameLower item = n
             \<and> (\<forall>y \<in> set before. getNameLower y \<noteq> n))"
    proof
      assume "\<exists>before after. x # xs = before @ item # after \<and> getNameLower item = n
                \<and> (\<forall>y \<in> set before. getNameLower y \<noteq> n)"
      then obtain before after where *: "x # xs = before @ item # after"
        "getNameLower item = n" "\<forall>y \<in> set before. getNameLower y \<noteq> n"
        by blast
      with False obtain before' where "before = x # before'"
        by (cases before) auto
      with * have "xs = before' @ item # after \<and> getNameLower item = n
                     \<and> (\<forall>y \<in> set before'. getNameLower y \<noteq> n)"
        by simp
      then show "\<exists>before after. xs = before @ item # after \<and> getNameLower item = n
                   \<and> (\<forall>y \<in> set before. getNameLower y \<noteq> n)"
        by blast
    next
      assume "\<exists>before after. xs = before @ item # after \<and> getNameLower item = n
                \<and> (\<forall>y \<in> set before. getNameLower y \<noteq> n)"
      then obtain before after where *: "xs = before @ item # after"
        "getNameLower item = n" "\<forall>y \<in> set before. getNameLower y \<noteq> n"
        by blast
      with False have "x # xs = (x # before) @ item # after \<and> getNameLower item = n
                         \<and> (\<forall>y \<in> set (x # before). getNameLower y \<noteq> n)"
        by simp
      then show "\<exists>before after. x # xs = before @ item # after \<and> getNameLower item = n
                   \<and> (\<forall>y \<in> set before. getNameLower y \<noteq> n)"
        by blast
    qed
    with False Cons.IH show ?thesis
      by simp
  qed
qed

lemma removeItem_loop_found: "fst (removeItem_loop n xs) = findItem_loop n xs"
  by (induction xs) (auto split: prod.splits)

lemma removeItem_loop_None:
  "findItem_loop n xs = None \<Longrightarrow> removeItem_loop n xs = (None, xs)"
  by (induction xs) (simp_all split: if_splits)

lemma removeItem_loop_split:
  "getNameLower item = n \<Longrightarrow> \<forall>x \<in> set before. getNameLower x \<noteq> n \<Longrightarrow>
   removeItem_loop n (before @ item # after) = (Some item, before @ after)"
  by (induction before) simp_all

lemma removeItem_loop_mset:
  "removeItem_loop n xs = (Some item, xs') \<Longrightarrow> mset xs = add_mset item (mset xs')"
  by (induction xs arbitrary: xs') (auto split: if_splits prod.splits)

lemma Room_findItem_first:
  "Room_findItem n r = Some item \<longleftrightarrow>
     (\<exists>before after. items r = before @ item # after \<and> getNameLower item = n
        \<and> (\<forall>x \<in> set before. getNameLower x \<noteq> n))"
  by (simp add: Room_findItem_def findItem_loop_Some)

lemma Room_removeItem_found: "fst (Room_removeItem n r) = Room_findItem n r"
  by (simp add: Room_removeItem_def Room_findItem_def removeItem_loop_found [symmetric]
      split: prod.splits)

lemma Room_removeItem_None:
  "Room_findItem n r = None \<Longrightarrow> Room_removeItem n r = (None, r)"
  by (simp add: Room_removeItem_def Room_findItem_def removeItem_loop_None)

lemma Room_removeItem_split:
  "items r = before @ item # after \<Longrightarrow> getNameLower item = n \<Longrightarrow>
   \<forall>x \<in> set before. getNameLower x \<noteq> n \<Longrightarrow>
   Room_removeItem n r = (Some item, r\<lparr>items := before @ after\<rparr>)"
  by (simp add: Room_removeItem_def removeItem_loop_split)

text \<open>
  Claim C10: in \<^verbatim>\<open>Player::take\<close>, whenever \<^verbatim>\<open>findItem\<close> returns a takeable item,
  \<^verbatim>\<open>removeItem\<close> with the same lowercased name returns that item, not \<^verbatim>\<open>nullptr\<close>; and no
  call of \<^verbatim>\<open>take\<close> that returns has printed the "Something went wrong" message.
\<close>

theorem take_removeItem_returns_item:
  "(Room_findItem n r = Some item \<and> takeable item \<longrightarrow>
      (\<exists>r'. Room_removeItem n r = (Some item, r')))
   \<and> (Player_take itemName g = Inr g' \<longrightarrow>
        cout g' \<noteq> cout g @ ''Something went wrong trying to take the '' @ itemName @ ''.'' @ endl)"
proof
  show "Room_findItem n r = Some item \<and> takeable item \<longrightarrow>
          (\<exists>r'. Room_removeItem n r = (Some item, r'))"
    using Room_removeItem_found [of n r] by (cases "Room_removeItem n r") auto
next
  show "Player_take itemName g = Inr g' \<longrightarrow>
          cout g' \<noteq> cout g @ ''Something went wrong trying to take the '' @ itemName @ ''.'' @ endl"
  proof
    assume take: "Player_take itemName g = Inr g'"
    show "cout g' \<noteq> cout g @ ''Something went wrong trying to take the '' @ itemName @ ''.'' @ endl"
    proof (cases "currentLocation (player g)")
      case None
      with take show ?thesis
        by (auto simp: Player_take_def print_def)
    next
      case (Some loc)
      with take obtain here where here: "deref (allRooms g) (Some loc) = Inr here"
        by (auto simp: Player_take_def Let_def split: sum.splits)
      show ?thesis
      proof (cases "Room_findItem (map tolower itemName) here")
        case None
        with take Some here show ?thesis
          by (auto simp: Player_take_def print_def Let_def)
      next
        case (Some item)
        then obtain here' where "Room_removeItem (map tolower itemName) here = (Some item, here')"
          using Room_removeItem_found [of "map tolower itemName" here]
          by (cases "Room_removeItem (map tolower itemName) here") auto
        with take \<open>currentLocation (player g) = Some loc\<close> here Some show ?thesis
          by (auto simp: Player_take_def print_def Let_def split: if_splits)
      qed
    qed
  qed
qed

theorem take_removeItem_returns_item_witness:
  "Room_findItem ''dim torch'' (Room_addItem (Some torch) (Room_new ''Cell'' [])) = Some torch
   \<and> takeable torch
   \<and> Room_removeItem ''dim torch'' (Room_addItem (Some torch) (Room_new ''Cell'' []))
       = (Some torch, Room_new ''Cell'' [])"
proof -
  let ?r = "Room_addItem (Some torch) (Room_new ''Cell'' [])"
  have f: "Room_findItem ''dim torch'' ?r = Some torch"
    by (simp add: Room_findItem_def Room_addItem_def Room_new_def torch_def Item_new_def
        getNameLower_def tolower_Char)
  have t: "takeable torch"
    by (simp add: torch_def Item_new_def)
  from take_removeItem_returns_item [of "''dim torch''" ?r torch] f t
  obtain r' where r': "Room_removeItem ''dim torch'' ?r = (Some torch, r')"
    by blast
  then have "r' = Room_new ''Cell'' []"
    by (simp add: Room_removeItem_def Room_addItem_def Room_new_def torch_def Item_new_def
        getNameLower_def tolower_Char)
  with f t r' show ?thesis
    by simp
qed

subsection \<open>Claims about the exits\<close>

text \<open>
  Claim C2, as the code has it: after \<^verbatim>\<open>R.addExit(D, X)\<close>, \<^verbatim>\<open>R.getExit\<close> with the lowercased
  \<open>D\<close> returns \<open>X\<close>. Only \<^verbatim>\<open>addExit\<close> lowercases its argument; \<^verbatim>\<open>getExit\<close> looks up the
  key it is given (its caller \<^verbatim>\<open>Player::go\<close> lowercases the direction first).
\<close>

theorem getExit_addExit_lowercase:
  "Room_getExit (Room_addExit D X R) (map tolower D) = X"
  by (rule getExit_addExit_same)

theorem getExit_addExit_lowercase_witness:
  "Room_getExit (Room_addExit ''NoRtH'' (Some corridor_1) (Room_new ''Damp Cell'' start_cell_description))
     ''north'' = Some corridor_1"
  using getExit_addExit_lowercase [of "''NoRtH''" "Some corridor_1"
      "Room_new ''Damp Cell'' start_cell_description"]
  by (simp add: tolower_Char)

text \<open>
  Claim C2 as stated fails: \<^verbatim>\<open>getExit\<close> does not lowercase, so the upper-case variant
  of a direction finds no exit.
\<close>

theorem getExit_uppercase_counterexample:
  "Room_getExit (Room_addExit ''north'' (Some corridor_1) (Room_new ''Damp Cell'' start_cell_description))
     ''NORTH'' \<noteq> Some corridor_1"
  by (simp add: Room_getExit_def Room_addExit_def Room_new_def tolower_Char)

subsection \<open>Claims about \<^verbatim>\<open>removeItem\<close>\<close>

text \<open>
  Claim C6, as the code has it: \<^verbatim>\<open>removeItem\<close> removes and returns the first item, in the
  order of insertion, whose name matches case-insensitively, and returns \<^verbatim>\<open>nullptr\<close> and
  changes nothing when no name matches. When an item \<open>I\<close> is the only item of the room
  whose name matches its own, the call with the lowercased name of \<open>I\<close> returns \<open>I\<close>,
  \<open>I\<close> is absent from the room afterwards, and a second call returns \<^verbatim>\<open>nullptr\<close>.
\<close>

theorem removeItem_first_match:
  "(Room_removeItem n r = (Some x, r') \<longleftrightarrow>
      (\<exists>before after. items r = before @ x # after \<and> getNameLower x = n
         \<and> (\<forall>y \<in> set before. getNameLower y \<noteq> n) \<and> r' = r\<lparr>items := before @ after\<rparr>))
   \<and> ((\<forall>y \<in> set (items r). getNameLower y \<noteq> n) \<longrightarrow> Room_removeItem n r = (None, r))
   \<and> (filter (\<lambda>y. getNameLower y = getNameLower I) (items r) = [I] \<longrightarrow>
        (\<exists>r1. Room_removeItem (getNameLower I) r = (Some I, r1) \<and> I \<notin> set (items r1)
           \<and> mset (items r) = add_mset I (mset (items r1))
           \<and> Room_removeItem (getNameLower I) r1 = (None, r1)))"
proof (intro conjI impI)
  show "Room_removeItem n r = (Some x, r') \<longleftrightarrow>
      (\<exists>before after. items r = before @ x # after \<and> getNameLower x = n
         \<and> (\<forall>y \<in> set before. getNameLower y \<noteq> n) \<and> r' = r\<lparr>items := before @ after\<rparr>)"
  proof
    assume rem: "Room_removeItem n r = (Some x, r')"
    with Room_removeItem_found [of n r] have "Room_findItem n r = Some x"
      by simp
    then obtain before after where split: "items r = before @ x # after" "getNameLower x = n"
      "\<forall>y \<in> set before. getNameLower y \<noteq> n"
      by (auto simp: Room_findItem_first)
    with rem have "r' = r\<lparr>items := before @ after\<rparr>"
      by (simp add: Room_removeItem_split)
    with split show "\<exists>before after. items r = before @ x # after \<and> getNameLower x = n
         \<and> (\<forall>y \<in> set before. getNameLower y \<noteq> n) \<and> r' = r\<lparr>items := before @ after\<rparr>"
      by blast
  next
    assume "\<exists>before after. items r = before @ x # after \<and> getNameLower x = n
         \<and> (\<forall>y \<in> set before. getNameLower y \<noteq> n) \<and> r' = r\<lparr>items := before @ after\<rparr>"
    then show "Room_removeItem n r = (Some x, r')"
      by (auto simp: Room_removeItem_split)
  qed
next
  assume "\<forall>y \<in> set (items r). getNameLower y \<noteq> n"
  then have "Room_findItem n r = None"
    by (simp add: Room_findItem_def findItem_loop_None)
  then show "Room_removeItem n r = (None, r)"
    by (rule Room_removeItem_None)
next
  let ?n = "getNameLower I"
  assume only: "filter (\<lambda>y. getNameLower y = ?n) (items r) = [I]"
  then obtain before after where raw: "items r = before @ I # after"
    "\<forall>y \<in> set before. getNameLower y \<noteq> ?n"
    "filter (\<lambda>y. getNameLower y = ?n) after = []"
    by (auto simp: filter_eq_Cons_iff)
  then have split: "items r = before @ I # after"
    "\<forall>y \<in> set before. getNameLower y \<noteq> ?n" "\<forall>y \<in> set after. getNameLower y \<noteq> ?n"
    by (simp_all add: filter_empty_conv)
  define r1 where "r1 = r\<lparr>items := before @ after\<rparr>"
  from split have rem: "Room_removeItem ?n r = (Some I, r1)"
    by (simp add: Room_removeItem_split r1_def)
  from split have none: "\<forall>y \<in> set (items r1). getNameLower y \<noteq> ?n"
    by (auto simp: r1_def)
  then have absent: "I \<notin> set (items r1)"
    by blast
  from none have "Room_findItem ?n r1 = None"
    by (simp add: Room_findItem_def findItem_loop_None)
  then have again: "Room_removeItem ?n r1 = (None, r1)"
    by (rule Room_removeItem_None)
  from split have "mset (items r) = add_mset I (mset (items r1))"
    by (simp add: r1_def)
  with rem absent again
  show "\<exists>r1. Room_removeItem ?n r = (Some I, r1) \<and> I \<notin> set (items r1)
           \<and> mset (items r) = add_mset I (mset (items r1))
           \<and> Room_removeItem ?n r1 = (None, r1)"
    by blast
qed


theorem removeItem_first_match_witness:
  "Room_removeItem ''dim torch'' (Room_addItem (Some bed) (Room_addItem (Some torch) (Room_new ''Damp Cell'' [])))
     = (Some torch, Room_addItem (Some bed) (Room_new ''Damp Cell'' []))
   \<and> torch \<notin> set (items (Room_addItem (Some bed) (Room_new ''Damp Cell'' [])))
   \<and> Room_removeItem ''dim torch'' (Room_addItem (Some bed) (Room_new ''Damp Cell'' []))
     = (None, Room_addItem (Some bed) (Room_new ''Damp Cell'' []))"
proof -
  let ?r = "Room_addItem (Some bed) (Room_addItem (Some torch) (Room_new ''Damp Cell'' []))"
  have n: "getNameLower torch = ''dim torch''"
    by (simp add: getNameLower_def torch_def Item_new_def tolower_Char)
  have items: "items ?r = [torch, bed]"
    by (simp add: Room_addItem_def Room_new_def)
  have "getNameLower bed \<noteq> getNameLower torch"
    by (simp add: getNameLower_def torch_def bed_def Item_new_def tolower_Char)
  then have only: "filter (\<lambda>y. getNameLower y = getNameLower torch) (items ?r) = [torch]"
    by (simp add: items)
  from removeItem_first_match [of "''dim torch''" ?r torch ?r torch] only
  obtain r1 where r1: "Room_removeItem (getNameLower torch) ?r = (Some torch, r1)"
    "torch \<notin> set (items r1)" "Room_removeItem (getNameLower torch) r1 = (None, r1)"
    by blast
  from r1(1) have "r1 = Room_addItem (Some bed) (Room_new ''Damp Cell'' [])"
    by (simp add: n Room_removeItem_def Room_addItem_def Room_new_def getNameLower_def
        torch_def bed_def Item_new_def tolower_Char)
  with r1 n show ?thesis
    by simp
qed

text \<open>
  Claim C6 as stated, for every item added to a room, fails when the room holds an
  earlier item whose name differs only in case: \<^verbatim>\<open>removeItem\<close> returns the earlier item,
  the item asked for stays in the room, and the second call returns it instead of
  \<^verbatim>\<open>nullptr\<close>.
\<close>

theorem removeItem_same_name_counterexample:
  "Item_new ''GOLD COIN'' ''A copy.'' True
     \<in> set (items (Room_addItem (Some (Item_new ''GOLD COIN'' ''A copy.'' True))
                  (Room_addItem (Some coin) (Room_new ''Vault'' []))))
   \<and> Room_removeItem (getNameLower (Item_new ''GOLD COIN'' ''A copy.'' True))
       (Room_addItem (Some (Item_new ''GOLD COIN'' ''A copy.'' True))
          (Room_addItem (Some coin) (Room_new ''Vault'' [])))
     = (Some coin, Room_addItem (Some (Item_new ''GOLD COIN'' ''A copy.'' True)) (Room_new ''Vault'' []))
   \<and> Item_new ''GOLD COIN'' ''A copy.'' True
       \<in> set (items (Room_addItem (Some (Item_new ''GOLD COIN'' ''A copy.'' True)) (Room_new ''Vault'' [])))
   \<and> Room_removeItem (getNameLower (Item_new ''GOLD COIN'' ''A copy.'' True))
       (Room_addItem (Some (Item_new ''GOLD COIN'' ''A copy.'' True)) (Room_new ''Vault'' []))
     = (Some (Item_new ''GOLD COIN'' ''A copy.'' True), Room_new ''Vault'' [])"
  by (simp add: Room_removeItem_def Room_addItem_def Room_new_def getNameLower_def
      coin_def Item_new_def tolower_Char)

subsection \<open>The world of \<^verbatim>\<open>createWorld\<close>, computed\<close>

lemmas room_addresses =
  start_cell_def
  corridor_1_def
  guard_room_def
  armory_def
  main_hall_def
  kitchen_def
  pantry_def
  library_def
  study_def
  courtyard_def
  garden_path_def
  deep_forest_def
  cellar_stairs_def
  wine_cellar_def
  storage_room_def
  hidden_passage_def
  underground_stream_def
  outer_gate_def
  tower_base_def
  tower_stairs_def
  tower_top_def

lemma statements_append:
  "statements (xs @ ys) rooms =
     (case statements xs rooms of Inl f \<Rightarrow> Inl f | Inr rooms' \<Rightarrow> statements ys rooms')"
  by (induction xs arbitrary: rooms) (simp_all split: sum.splits)

lemma createWorld_statements:
  "statements (link_rooms @ place_items) new_rooms = Inr
     [\<lparr>Room.name = ''Damp Cell'', description = start_cell_description,
        exits = [(''north'', Some corridor_1)],
        items = [torch, bed]\<rparr>,
      \<lparr>Room.name = ''Narrow Corridor'', description = corridor_1_description,
        exits = [(''north'', Some guard_room), (''south'', Some start_cell)],
        items = []\<rparr>,
      \<lparr>Room.name = ''Guard Room'', description = guard_room_description,
        exits = [(''north'', Some main_hall), (''south'', Some corridor_1), (''west'', Some armory)],
        items = [table, chair, coin]\<rparr>,
      \<lparr>Room.name = ''Small Armory'', description = armory_description,
        exits = [(''east'', Some guard_room)],
        items = [sword, shield, gem]\<rparr>,
      \<lparr>Room.name = ''Main Hall'', description = main_hall_description,
        exits = [(''down'', Some cellar_stairs), (''east'', Some kitchen), (''north'', Some courtyard), (''south'', Some guard_room), (''west'', Some library)],
        items = [tapestry, statue]\<rparr>,
      \<lparr>Room.name = ''Abandoned Kitchen'', description = kitchen_description,
        exits = [(''north'', Some pantry), (''west'', Some main_hall)],
        items = [fireplace, potion]\<rparr>,
      \<lparr>Room.name = ''Dusty Pantry'', description = pantry_description,
        exits = [(''south'', Some kitchen)],
        items = [scroll]\<rparr>,
      \<lparr>Room.name = ''Quiet Library'', description = library_description,
        exits = [(''east'', Some main_hall), (''north'', Some study)],
        items = [book]\<rparr>,
      \<lparr>Room.name = ''Small Study'', description = study_description,
        exits = [(''south'', Some library)],
        items = [painting, key]\<rparr>,
      \<lparr>Room.name = ''Overgrown Courtyard'', description = courtyard_description,
        exits = [(''east'', Some garden_path), (''north'', Some outer_gate), (''south'', Some main_hall)],
        items = [fountain, well]\<rparr>,
      \<lparr>Room.name = ''Garden Path'', description = garden_path_description,
        exits = [(''east'', Some deep_forest), (''north'', Some tower_base), (''west'', Some courtyard)],
        items = []\<rparr>,
      \<lparr>Room.name = ''Deep Forest'', description = deep_forest_description,
        exits = [(''west'', Some garden_path)],
        items = []\<rparr>,
      \<lparr>Room.name = ''Cellar Stairs'', description = cellar_stairs_description,
        exits = [(''down'', Some wine_cellar), (''up'', Some main_hall)],
        items = []\<rparr>,
      \<lparr>Room.name = ''Wine Cellar'', description = wine_cellar_description,
        exits = [(''east'', Some storage_room), (''up'', Some cellar_stairs)],
        items = [altar]\<rparr>,
      \<lparr>Room.name = ''Storage Room'', description = storage_room_description,
        exits = [(''east'', Some hidden_passage), (''west'', Some wine_cellar)],
        items = [map_item]\<rparr>,
      \<lparr>Room.name = ''Hidden Passage'', description = hidden_passage_description,
        exits = [(''north'', Some underground_stream), (''west'', Some storage_room)],
        items = []\<rparr>,
      \<lparr>Room.name = ''Underground Stream'', description = underground_stream_description,
        exits = [(''south'', Some hidden_passage)],
        items = []\<rparr>,
      \<lparr>Room.name = ''Outer Gate'', description = outer_gate_description,
        exits = [(''south'', Some courtyard)],
        items = []\<rparr>,
      \<lparr>Room.name = ''Tower Base'', description = tower_base_description,
        exits = [(''north'', Some tower_stairs), (''south'', Some garden_path)],
        items = []\<rparr>,
      \<lparr>Room.name = ''Tower Stairs'', description = tower_stairs_description,
        exits = [(''down'', Some tower_base), (''up'', Some tower_top)],
        items = []\<rparr>,
      \<lparr>Room.name = ''Tower Top'', description = tower_top_description,
        exits = [(''down'', Some tower_stairs)],
        items = []\<rparr>]"
  by (simp add: link_rooms_def place_items_def new_rooms_def addExit_at_def addItem_at_def
      update_room_def Room_addExit_def Room_addItem_def Room_new_def room_addresses tolower_Char)

lemma world_rooms_eq:
  "world_rooms =
     [\<lparr>Room.name = ''Damp Cell'', description = start_cell_description,
        exits = [(''north'', Some corridor_1)],
        items = [torch, bed]\<rparr>,
      \<lparr>Room.name = ''Narrow Corridor'', description = corridor_1_description,
        exits = [(''north'', Some guard_room), (''south'', Some start_cell)],
        items = []\<rparr>,
      \<lparr>Room.name = ''Guard Room'', description = guard_room_description,
        exits = [(''north'', Some main_hall), (''south'', Some corridor_1), (''west'', Some armory)],
        items = [table, chair, coin]\<rparr>,
      \<lparr>Room.name = ''Small Armory'', description = armory_description,
        exits = [(''east'', Some guard_room)],
        items = [sword, shield, gem]\<rparr>,
      \<lparr>Room.name = ''Main Hall'', description = main_hall_description,
        exits = [(''down'', Some cellar_stairs), (''east'', Some kitchen), (''north'', Some courtyard), (''south'', Some guard_room), (''west'', Some library)],
        items = [tapestry, statue]\<rparr>,
      \<lparr>Room.name = ''Abandoned Kitchen'', description = kitchen_description,
        exits = [(''north'', Some pantry), (''west'', Some main_hall)],
        items = [fireplace, potion]\<rparr>,
      \<lparr>Room.name = ''Dusty Pantry'', description = pantry_description,
        exits = [(''south'', Some kitchen)],
        items = [scroll]\<rparr>,
      \<lparr>Room.name = ''Quiet Library'', description = library_description,
        exits = [(''east'', Some main_hall), (''north'', Some study)],
        items = [book]\<rparr>,
      \<lparr>Room.name = ''Small Study'', description = study_description,
        exits = [(''south'', Some library)],
        items = [painting, key]\<rparr>,
      \<lparr>Room.name = ''Overgrown Courtyard'', description = courtyard_description,
        exits = [(''east'', Some garden_path), (''north'', Some outer_gate), (''south'', Some main_hall)],
        items = [fountain, well]\<rparr>,
      \<lparr>Room.name = ''Garden Path'', description = garden_path_description,
        exits = [(''east'', Some deep_forest), (''north'', Some tower_base), (''west'', Some courtyard)],
        items = []\<rparr>,
      \<lparr>Room.name = ''Deep Forest'', description = deep_forest_description,
        exits = [(''west'', Some garden_path)],
        items = []\<rparr>,
      \<lparr>Room.name = ''Cellar Stairs'', description = cellar_stairs_description,
        exits = [(''down'', Some wine_cellar), (''up'', Some main_hall)],
        items = []\<rparr>,
      \<lparr>Room.name = ''Wine Cellar'', description = wine_cellar_description,
        exits = [(''east'', Some storage_room), (''up'', Some cellar_stairs)],
        items = [altar]\<rparr>,
      \<lparr>Room.name = ''Storage Room'', description = storage_room_description,
        exits = [(''east'', Some hidden_passage), (''west'', Some wine_cellar)],
        items = [map_item]\<rparr>,
      \<lparr>Room.name = ''Hidden Passage'', description = hidden_passage_description,
        exits = [(''north'', Some underground_stream), (''west'', Some storage_room)],
        items = []\<rparr>,
      \<lparr>Room.name = ''Underground Stream'', description = underground_stream_description,
        exits = [(''south'', Some hidden_passage)],
        items = []\<rparr>,
      \<lparr>Room.name = ''Outer Gate'', description = outer_gate_description,
        exits = [(''south'', Some courtyard)],
        items = []\<rparr>,
      \<lparr>Room.name = ''Tower Base'', description = tower_base_description,
        exits = [(''north'', Some tower_stairs), (''south'', Some garden_path)],
        items = []\<rparr>,
      \<lparr>Room.name = ''Tower Stairs'', description = tower_stairs_description,
        exits = [(''down'', Some tower_base), (''up'', Some tower_top)],
        items = []\<rparr>,
      \<lparr>Room.name = ''Tower Top'', description = tower_top_description,
        exits = [(''down'', Some tower_stairs)],
        items = []\<rparr>]"
  by (simp only: world_rooms_def createWorld_statements sum.case)

lemma statements_world_rooms: "statements (link_rooms @ place_items) new_rooms = Inr world_rooms"
  by (simp only: createWorld_statements world_rooms_eq)

lemma length_world_rooms: "length world_rooms = 21"
  by (simp add: world_rooms_eq)

lemma createWorld_fresh:
  "allRooms g = [] \<Longrightarrow> createWorld g = Inr (g\<lparr>allRooms := world_rooms\<rparr>)"
  by (simp add: createWorld_def statements_world_rooms)

lemma world_rooms_start: "world_rooms ! 0 = \<lparr>Room.name = ''Damp Cell'', description = start_cell_description,
        exits = [(''north'', Some corridor_1)],
        items = [torch, bed]\<rparr>"
  by (simp add: world_rooms_eq)

lemma Game_new_eq:
  "Game_new = Inr
     \<lparr>player = \<lparr>currentLocation = Some start_cell, inventory = []\<rparr>,
      allRooms = world_rooms,
      gameOver = False,
      cout = ''Initializing game world...'' @ endl
             @ ''World created. Player starts in: Damp Cell'' @ endl
             @ ''Type 'help' for commands.'' @ endl @ endl,
      cerr = []\<rparr>"
proof -
  have ne: "world_rooms \<noteq> []"
    using length_world_rooms by auto
  show ?thesis
    by (simp add: Game_new_def Let_def print_def createWorld_fresh Player_new_def deref_def ne
        length_world_rooms world_rooms_start start_cell_def)
qed

lemma map_assign_twice: "map_assign k y (map_assign k x m) = map_assign k y m"
  by (induction m) auto

text \<open>
  Claim C8: \<^verbatim>\<open>addExit\<close> overwrites the entry of the lowercased direction, and the later
  of two assignments to one direction is the one that stays (the earlier leaves no
  trace). In the world \<^verbatim>\<open>createWorld\<close> builds, the exits of the rooms are those of the
  table below; the north exit of the Narrow Corridor is the Guard Room, not the Main
  Hall.
\<close>

theorem addExit_last_write_wins:
  "Room_getExit (Room_addExit d y (Room_addExit d x r)) (map tolower d) = y
   \<and> Room_addExit d y (Room_addExit d x r) = Room_addExit d y r
   \<and> (\<exists>g. Game_new = Inr g
        \<and> map (\<lambda>room. (Room.name room, exits room)) (allRooms g) =
     [(''Damp Cell'', [(''north'', Some corridor_1)]),
         (''Narrow Corridor'', [(''north'', Some guard_room), (''south'', Some start_cell)]),
         (''Guard Room'', [(''north'', Some main_hall), (''south'', Some corridor_1), (''west'', Some armory)]),
         (''Small Armory'', [(''east'', Some guard_room)]),
         (''Main Hall'', [(''down'', Some cellar_stairs), (''east'', Some kitchen), (''north'', Some courtyard), (''south'', Some guard_room), (''west'', Some library)]),
         (''Abandoned Kitchen'', [(''north'', Some pantry), (''west'', Some main_hall)]),
         (''Dusty Pantry'', [(''south'', Some kitchen)]),
         (''Quiet Library'', [(''east'', Some main_hall), (''north'', Some study)]),
         (''Small Study'', [(''south'', Some library)]),
         (''Overgrown Courtyard'', [(''east'', Some garden_path), (''north'', Some outer_gate), (''south'', Some main_hall)]),
         (''Garden Path'', [(''east'', Some deep_forest), (''north'', Some tower_base), (''west'', Some courtyard)]),
         (''Deep Forest'', [(''west'', Some garden_path)]),
         (''Cellar Stairs'', [(''down'', Some wine_cellar), (''up'', Some main_hall)]),
         (''Wine Cellar'', [(''east'', Some storage_room), (''up'', Some cellar_stairs)]),
         (''Storage Room'', [(''east'', Some hidden_passage), (''west'', Some wine_cellar)]),
         (''Hidden Passage'', [(''north'', Some underground_stream), (''west'', Some storage_room)]),
         (''Underground Stream'', [(''south'', Some hidden_passage)]),
         (''Outer Gate'', [(''south'', Some courtyard)]),
         (''Tower Base'', [(''north'', Some tower_stairs), (''south'', Some garden_path)]),
         (''Tower Stairs'', [(''down'', Some tower_base), (''up'', Some tower_top)]),
         (''Tower Top'', [(''down'', Some tower_stairs)])]
        \<and> Room.name (allRooms g ! corridor_1) = ''Narrow Corridor''
        \<and> Room.name (allRooms g ! guard_room) = ''Guard Room''
        \<and> Room.name (allRooms g ! main_hall) = ''Main Hall''
        \<and> Room_getExit (allRooms g ! corridor_1) ''north'' = Some guard_room
        \<and> Room_getExit (allRooms g ! corridor_1) ''north'' \<noteq> Some main_hall)"
proof (intro conjI)
  show "Room_getExit (Room_addExit d y (Room_addExit d x r)) (map tolower d) = y"
    by (rule getExit_addExit_same)
  show "Room_addExit d y (Room_addExit d x r) = Room_addExit d y r"
    by (simp add: Room_addExit_def map_assign_twice)
  show "\<exists>g. Game_new = Inr g
        \<and> map (\<lambda>room. (Room.name room, exits room)) (allRooms g) =
     [(''Damp Cell'', [(''north'', Some corridor_1)]),
         (''Narrow Corridor'', [(''north'', Some guard_room), (''south'', Some start_cell)]),
         (''Guard Room'', [(''north'', Some main_hall), (''south'', Some corridor_1), (''west'', Some armory)]),
         (''Small Armory'', [(''east'', Some guard_room)]),
         (''Main Hall'', [(''down'', Some cellar_stairs), (''east'', Some kitchen), (''north'', Some courtyard), (''south'', Some guard_room), (''west'', Some library)]),
         (''Abandoned Kitchen'', [(''north'', Some pantry), (''west'', Some main_hall)]),
         (''Dusty Pantry'', [(''south'', Some kitchen)]),
         (''Quiet Library'', [(''east'', Some main_hall), (''north'', Some study)]),
         (''Small Study'', [(''south'', Some library)]),
         (''Overgrown Courtyard'', [(''east'', Some garden_path), (''north'', Some outer_gate), (''south'', Some main_hall)]),
         (''Garden Path'', [(''east'', Some deep_forest), (''north'', Some tower_base), (''west'', Some courtyard)]),
         (''Deep Forest'', [(''west'', Some garden_path)]),
         (''Cellar Stairs'', [(''down'', Some wine_cellar), (''up'', Some main_hall)]),
         (''Wine Cellar'', [(''east'', Some storage_room), (''up'', Some cellar_stairs)]),
         (''Storage Room'', [(''east'', Some hidden_passage), (''west'', Some wine_cellar)]),
         (''Hidden Passage'', [(''north'', Some underground_stream), (''west'', Some storage_room)]),
         (''Underground Stream'', [(''south'', Some hidden_passage)]),
         (''Outer Gate'', [(''south'', Some courtyard)]),
         (''Tower Base'', [(''north'', Some tower_stairs), (''south'', Some garden_path)]),
         (''Tower Stairs'', [(''down'', Some tower_base), (''up'', Some tower_top)]),
         (''Tower Top'', [(''down'', Some tower_stairs)])]
        \<and> Room.name (allRooms g ! corridor_1) = ''Narrow Corridor''
        \<and> Room.name (allRooms g ! guard_room) = ''Guard Room''
        \<and> Room.name (allRooms g ! main_hall) = ''Main Hall''
        \<and> Room_getExit (allRooms g ! corridor_1) ''north'' = Some guard_room
        \<and> Room_getExit (allRooms g ! corridor_1) ''north'' \<noteq> Some main_hall"
    by (simp add: Game_new_eq world_rooms_eq Room_getExit_def room_addresses)
qed

theorem addExit_last_write_wins_witness:
  "Room_getExit
     (Room_addExit ''North'' (Some guard_room)
        (Room_addExit ''North'' (Some main_hall) (Room_new ''Narrow Corridor'' corridor_1_description)))
     ''north'' = Some guard_room"
  using addExit_last_write_wins [of "''North''" "Some guard_room" "Some main_hall"
      "Room_new ''Narrow Corridor'' corridor_1_description", THEN conjunct1]
  by (simp add: tolower_Char)

subsection \<open>\<^verbatim>\<open>Player::take\<close>\<close>

lemma deref_valid: "i < length rooms \<Longrightarrow> deref rooms (Some i) = Inr (rooms ! i)"
  by (simp add: deref_def)

lemma deref_Inr: "deref rooms p = Inr r \<longleftrightarrow> (\<exists>i. p = Some i \<and> i < length rooms \<and> r = rooms ! i)"
  by (auto simp: deref_def split: option.splits)

lemma Player_take_not_seen:
  assumes "currentLocation (player g) = Some loc" and "loc < length (allRooms g)"
    and "Room_findItem (map tolower itemName) (allRooms g ! loc) = None"
  shows "Player_take itemName g =
           Inr (g\<lparr>cout := cout g @ ''You don't see a '' @ [CHR 0x27] @ itemName @ [CHR 0x27]
                               @ '' here to take.'' @ endl\<rparr>)"
  using assms by (simp add: Player_take_def deref_valid print_def)

lemma Player_take_not_takeable:
  assumes "currentLocation (player g) = Some loc" and "loc < length (allRooms g)"
    and "Room_findItem (map tolower itemName) (allRooms g ! loc) = Some item"
    and "\<not> takeable item"
  shows "Player_take itemName g =
           Inr (g\<lparr>cout := cout g @ ''You can't take the '' @ Item.name item @ ''.'' @ endl\<rparr>)"
  using assms by (simp add: Player_take_def deref_valid print_def)

lemma Player_take_success:
  assumes "currentLocation (player g) = Some loc" and "loc < length (allRooms g)"
    and "items (allRooms g ! loc) = before @ item # after"
    and "getNameLower item = map tolower itemName"
    and "\<forall>x \<in> set before. getNameLower x \<noteq> map tolower itemName"
    and "takeable item"
  shows "Player_take itemName g =
           Inr (g\<lparr>allRooms := (allRooms g)[loc := (allRooms g ! loc)\<lparr>items := before @ after\<rparr>],
                  player := (player g)\<lparr>inventory := inventory (player g) @ [item]\<rparr>,
                  cout := cout g @ ''You picked up the '' @ Item.name item @ ''.'' @ endl\<rparr>)"
proof -
  from assms(3-5) have "Room_findItem (map tolower itemName) (allRooms g ! loc) = Some item"
    by (auto simp: Room_findItem_first)
  moreover from assms(3-5)
  have "Room_removeItem (map tolower itemName) (allRooms g ! loc)
          = (Some item, (allRooms g ! loc)\<lparr>items := before @ after\<rparr>)"
    by (simp add: Room_removeItem_split)
  ultimately show ?thesis
    using assms(1,2,6) by (simp add: Player_take_def deref_valid print_def)
qed

text \<open>
  Claim C3: with the player in a room of the game, \<^verbatim>\<open>take\<close> prints the "not seen"
  message when no item of the room has the name (compared in lower case), and the "can't
  take" message when the first item with the name is not takeable; in both cases only
  the output changes. When the first item with the name is takeable, exactly that
  instance leaves the room's list, is appended to the inventory, and the confirmation
  is printed.
\<close>

theorem take_outcomes:
  assumes "currentLocation (player g) = Some loc" and "loc < length (allRooms g)"
  shows "((\<forall>x \<in> set (items (allRooms g ! loc)). getNameLower x \<noteq> map tolower itemName) \<longrightarrow>
            Player_take itemName g =
              Inr (g\<lparr>cout := cout g @ ''You don't see a '' @ [CHR 0x27] @ itemName @ [CHR 0x27]
                                  @ '' here to take.'' @ endl\<rparr>))
       \<and> (\<forall>before item after.
            items (allRooms g ! loc) = before @ item # after
            \<and> getNameLower item = map tolower itemName
            \<and> (\<forall>x \<in> set before. getNameLower x \<noteq> map tolower itemName)
            \<longrightarrow>
            (if \<not> takeable item
             then Player_take itemName g =
                    Inr (g\<lparr>cout := cout g @ ''You can't take the '' @ Item.name item @ ''.'' @ endl\<rparr>)
             else Player_take itemName g =
                    Inr (g\<lparr>allRooms :=
                             (allRooms g)[loc := (allRooms g ! loc)\<lparr>items := before @ after\<rparr>],
                           player := (player g)\<lparr>inventory := inventory (player g) @ [item]\<rparr>,
                           cout := cout g @ ''You picked up the '' @ Item.name item @ ''.'' @ endl\<rparr>)))"
proof (intro conjI allI impI)
  assume "\<forall>x \<in> set (items (allRooms g ! loc)). getNameLower x \<noteq> map tolower itemName"
  then have "Room_findItem (map tolower itemName) (allRooms g ! loc) = None"
    by (simp add: Room_findItem_def findItem_loop_None)
  with assms show "Player_take itemName g =
      Inr (g\<lparr>cout := cout g @ ''You don't see a '' @ [CHR 0x27] @ itemName @ [CHR 0x27]
                          @ '' here to take.'' @ endl\<rparr>)"
    by (rule Player_take_not_seen)
next
  fix before item after
  assume split: "items (allRooms g ! loc) = before @ item # after
            \<and> getNameLower item = map tolower itemName
            \<and> (\<forall>x \<in> set before. getNameLower x \<noteq> map tolower itemName)"
  then have found: "Room_findItem (map tolower itemName) (allRooms g ! loc) = Some item"
    by (auto simp: Room_findItem_first)
  show "if \<not> takeable item
        then Player_take itemName g =
               Inr (g\<lparr>cout := cout g @ ''You can't take the '' @ Item.name item @ ''.'' @ endl\<rparr>)
        else Player_take itemName g =
               Inr (g\<lparr>allRooms :=
                        (allRooms g)[loc := (allRooms g ! loc)\<lparr>items := before @ after\<rparr>],
                      player := (player g)\<lparr>inventory := inventory (player g) @ [item]\<rparr>,
                      cout := cout g @ ''You picked up the '' @ Item.name item @ ''.'' @ endl\<rparr>)"
  proof (cases "takeable item")
    case False
    with assms found show ?thesis
      by (simp add: Player_take_not_takeable)
  next
    case True
    with assms split show ?thesis
      by (simp add: Player_take_success)
  qed
qed

lemma Game_new_facts:
  "\<exists>g0. Game_new = Inr g0 \<and> player g0 = \<lparr>currentLocation = Some start_cell, inventory = []\<rparr>
     \<and> allRooms g0 = world_rooms \<and> \<not> gameOver g0"
  by (simp add: Game_new_eq)

lemma world_items_names:
  "map getNameLower world_items =
     [''rusty key'', ''torn map'', ''dim torch'', ''iron sword'', ''wooden shield'', ''red potion'',
      ''dusty book'', ''gold coin'', ''blue gem'', ''ancient scroll'', ''stone statue'',
      ''dry fountain'', ''stone altar'', ''faded tapestry'', ''oil painting'', ''deep well'',
      ''wooden table'', ''rickety chair'', ''straw bed'', ''cold fireplace'']"
  by (simp add: world_items_def getNameLower_def Item_new_def tolower_Char
      key_def map_item_def torch_def sword_def shield_def potion_def book_def coin_def gem_def
      scroll_def statue_def fountain_def altar_def tapestry_def painting_def well_def table_def
      chair_def bed_def fireplace_def)

lemma distinct_world_items: "distinct world_items"
proof -
  have "distinct (map getNameLower world_items)"
    unfolding world_items_names by simp
  then show ?thesis
    by (simp add: distinct_map)
qed

lemma all_items_world:
  "concat (map items world_rooms) =
     [torch, bed, table, chair, coin, sword, shield, gem, tapestry, statue, fireplace, potion,
      scroll, book, painting, key, fountain, well, altar, map_item]"
  by (simp add: world_rooms_eq)


lemma mset_world_items: "mset (concat (map items world_rooms)) = mset world_items"
  by (simp add: all_items_world world_items_def)

subsection \<open>The items are conserved\<close>

lemma mset_items_update:
  assumes "i < length rooms" and "mset (items (rooms ! i)) = add_mset item (mset (items r'))"
  shows "mset (concat (map items rooms)) = add_mset item (mset (concat (map items (rooms[i := r']))))"
  using assms
proof (induction rooms arbitrary: i)
  case Nil
  then show ?case by simp
next
  case (Cons r rooms)
  show ?case
  proof (cases i)
    case 0
    with Cons.prems show ?thesis
      by simp
  next
    case (Suc j)
    with Cons.prems have "mset (concat (map items rooms))
        = add_mset item (mset (concat (map items (rooms[j := r']))))"
      by (intro Cons.IH) simp_all
    with Suc show ?thesis
      by simp
  qed
qed

lemma Player_take_conserves:
  assumes "Player_take itemName g = Inr g'"
  shows "mset (all_items g') = mset (all_items g)
       \<and> currentLocation (player g') = currentLocation (player g)
       \<and> length (allRooms g') = length (allRooms g)"
proof (cases "currentLocation (player g)")
  case None
  with assms show ?thesis
    by (auto simp: Player_take_def print_def all_items_def)
next
  case (Some loc)
  with assms have valid: "loc < length (allRooms g)"
    by (auto simp: Player_take_def deref_def Let_def split: if_splits)
  let ?here = "allRooms g ! loc" and ?n = "map tolower itemName"
  show ?thesis
  proof (cases "Room_findItem ?n ?here")
    case None
    with Some valid assms show ?thesis
      by (auto simp: Player_take_not_seen all_items_def)
  next
    case found: (Some item)
    show ?thesis
    proof (cases "takeable item")
      case False
      with Some valid found assms show ?thesis
        by (auto simp: Player_take_not_takeable all_items_def)
    next
      case True
      from found obtain before after where split: "items ?here = before @ item # after"
        "getNameLower item = ?n" "\<forall>x \<in> set before. getNameLower x \<noteq> ?n"
        by (auto simp: Room_findItem_first)
      from Player_take_success [OF Some valid split True] assms
      have g': "g' = g\<lparr>allRooms := (allRooms g)[loc := ?here\<lparr>items := before @ after\<rparr>],
                        player := (player g)\<lparr>inventory := inventory (player g) @ [item]\<rparr>,
                        cout := cout g @ ''You picked up the '' @ Item.name item @ ''.'' @ endl\<rparr>"
        by simp
      from split have "mset (items ?here) = add_mset item (mset (items (?here\<lparr>items := before @ after\<rparr>)))"
        by simp
      with valid have "mset (concat (map items (allRooms g)))
          = add_mset item (mset (concat (map items ((allRooms g)[loc := ?here\<lparr>items := before @ after\<rparr>]))))"
        by (rule mset_items_update)
      with g' show ?thesis
        by (simp add: all_items_def)
    qed
  qed
qed

lemma Player_take_returns:
  assumes "currentLocation (player g) = None
           \<or> (\<exists>loc. currentLocation (player g) = Some loc \<and> loc < length (allRooms g))"
  shows "\<exists>g'. Player_take itemName g = Inr g'"
  using assms
  by (auto simp: Player_take_def deref_def Let_def split: option.splits prod.splits)

lemma take_sequence_conserves:
  assumes "\<exists>loc. currentLocation (player g) = Some loc \<and> loc < length (allRooms g)"
  shows "\<exists>g'. take_sequence names g = Inr g' \<and> mset (all_items g') = mset (all_items g)"
  using assms
proof (induction names arbitrary: g)
  case Nil
  show ?case by simp
next
  case (Cons itemName names)
  from Cons.prems obtain g1 where g1: "Player_take itemName g = Inr g1"
    using Player_take_returns [of g itemName] by blast
  from Player_take_conserves [OF g1] Cons.prems
  have "\<exists>loc. currentLocation (player g1) = Some loc \<and> loc < length (allRooms g1)"
    and same: "mset (all_items g1) = mset (all_items g)"
    by simp_all
  from Cons.IH [OF this(1)] obtain g' where
    "take_sequence names g1 = Inr g'" "mset (all_items g') = mset (all_items g1)"
    by blast
  with g1 same show ?case
    by simp
qed

lemma item_names_lower:
  "getNameLower torch = ''dim torch''" "getNameLower bed = ''straw bed''"
  by (simp_all add: getNameLower_def torch_def bed_def Item_new_def tolower_Char)

text \<open>
  Claim C1: a sequence of \<^verbatim>\<open>take\<close> commands, started with the player in any room of the
  game, returns without fault and leaves the multiset of all items (those of the rooms
  and those of the inventory) as it was; when no item was in two places or twice in one
  before, none is afterwards. In the freshly built game this multiset is that of the
  items \<^verbatim>\<open>createWorld\<close> made, each once: after every sequence of \<^verbatim>\<open>take\<close> commands the
  rooms and the inventory together hold exactly these items, and the list of all items
  has no duplicate.
\<close>

theorem take_conserves_items:
  "((\<exists>loc. currentLocation (player g) = Some loc \<and> loc < length (allRooms g)) \<longrightarrow>
      (\<exists>g'. take_sequence names g = Inr g'
         \<and> mset (all_items g') = mset (all_items g)
         \<and> (distinct (all_items g) \<longrightarrow> distinct (all_items g'))))
   \<and> (\<exists>g0. Game_new = Inr g0
         \<and> mset (all_items g0) = mset world_items \<and> distinct world_items
         \<and> (\<forall>names. \<exists>g. take_sequence names g0 = Inr g
                \<and> mset (all_items g) = mset world_items \<and> distinct (all_items g)))"
proof
  show "(\<exists>loc. currentLocation (player g) = Some loc \<and> loc < length (allRooms g)) \<longrightarrow>
      (\<exists>g'. take_sequence names g = Inr g'
         \<and> mset (all_items g') = mset (all_items g)
         \<and> (distinct (all_items g) \<longrightarrow> distinct (all_items g')))"
  proof
    assume "\<exists>loc. currentLocation (player g) = Some loc \<and> loc < length (allRooms g)"
    from take_sequence_conserves [OF this, of names] obtain g' where
      g': "take_sequence names g = Inr g'" "mset (all_items g') = mset (all_items g)"
      by blast
    from g'(2) have "distinct (all_items g) \<longrightarrow> distinct (all_items g')"
      by (metis mset_eq_imp_distinct_iff)
    with g' show "\<exists>g'. take_sequence names g = Inr g'
         \<and> mset (all_items g') = mset (all_items g)
         \<and> (distinct (all_items g) \<longrightarrow> distinct (all_items g'))"
      by blast
  qed
next
  from Game_new_facts obtain g0 where g0: "Game_new = Inr g0"
    "player g0 = \<lparr>currentLocation = Some start_cell, inventory = []\<rparr>"
    "allRooms g0 = world_rooms"
    by blast
  then have fresh: "mset (all_items g0) = mset world_items"
    by (simp add: all_items_def mset_world_items)
  from g0 have valid: "\<exists>loc. currentLocation (player g0) = Some loc \<and> loc < length (allRooms g0)"
    by (simp add: length_world_rooms start_cell_def)
  have "\<exists>g. take_sequence names g0 = Inr g
            \<and> mset (all_items g) = mset world_items \<and> distinct (all_items g)" for names
  proof -
    from take_sequence_conserves [OF valid, of names] obtain g where
      g: "take_sequence names g0 = Inr g" "mset (all_items g) = mset (all_items g0)"
      by blast
    with fresh have "mset (all_items g) = mset world_items"
      by simp
    moreover from this distinct_world_items have "distinct (all_items g)"
      by (metis mset_eq_imp_distinct_iff)
    ultimately show ?thesis
      using g(1) by blast
  qed
  with g0(1) fresh distinct_world_items
  show "\<exists>g0. Game_new = Inr g0
         \<and> mset (all_items g0) = mset world_items \<and> distinct world_items
         \<and> (\<forall>names. \<exists>g. take_sequence names g0 = Inr g
                \<and> mset (all_items g) = mset world_items \<and> distinct (all_items g))"
    by blast
qed

text \<open>
  In the fresh game: the torch is taken, the bed cannot be, the torch is no longer in
  the room at the second try, and there is no sword.
\<close>

theorem take_conserves_items_witness:
  "\<exists>g0 g. Game_new = Inr g0
     \<and> take_sequence [''dim torch'', ''Straw Bed'', ''DIM TORCH'', ''sword''] g0 = Inr g
     \<and> inventory (player g) = [torch]
     \<and> items (allRooms g ! start_cell) = [bed]
     \<and> mset (all_items g) = mset world_items \<and> distinct (all_items g)"
proof -
  let ?names = "[''dim torch'', ''Straw Bed'', ''DIM TORCH'', ''sword'']"
  from Game_new_facts obtain g0 where g0: "Game_new = Inr g0"
    "player g0 = \<lparr>currentLocation = Some start_cell, inventory = []\<rparr>"
    "allRooms g0 = world_rooms"
    by blast
  from g0 have valid: "\<exists>loc. currentLocation (player g0) = Some loc \<and> loc < length (allRooms g0)"
    by (simp add: length_world_rooms start_cell_def)
  from g0 have fresh: "mset (all_items g0) = mset world_items"
    by (simp add: all_items_def mset_world_items)
  with distinct_world_items have d0: "distinct (all_items g0)"
    by (metis mset_eq_imp_distinct_iff)
  from take_conserves_items [of g0 ?names, THEN conjunct1, rule_format, OF valid] d0
  obtain g where g: "take_sequence ?names g0 = Inr g" "mset (all_items g) = mset (all_items g0)"
    "distinct (all_items g)"
    by blast
  from g(1) g0 have "inventory (player g) = [torch] \<and> items (allRooms g ! 0) = [bed]"
    by (auto simp: Player_take_def deref_def Room_findItem_def Room_removeItem_def print_def
        length_world_rooms world_rooms_start start_cell_def item_names_lower tolower_Char
        torch_def [THEN arg_cong, of takeable] bed_def [THEN arg_cong, of takeable] Item_new_def)
  with g0(1) g fresh show ?thesis
    by (auto simp: start_cell_def)
qed

text \<open>
  The scenario of the starting room: the torch is taken, the bed cannot be taken, and
  there is no sword.
\<close>

theorem take_outcomes_witness:
  "\<exists>g0 g1. Game_new = Inr g0
     \<and> Player_take ''Dim Torch'' g0 = Inr g1
     \<and> inventory (player g1) = [torch]
     \<and> items (allRooms g1 ! start_cell) = [bed]
     \<and> cout g1 = cout g0 @ ''You picked up the Dim Torch.'' @ endl
     \<and> Player_take ''straw BED'' g1 = Inr (g1\<lparr>cout := cout g1 @ ''You can't take the Straw Bed.'' @ endl\<rparr>)
     \<and> Player_take ''sword'' g1
         = Inr (g1\<lparr>cout := cout g1 @ ''You don't see a '' @ [CHR 0x27] @ ''sword'' @ [CHR 0x27]
                                 @ '' here to take.'' @ endl\<rparr>)"
proof -
  from Game_new_facts obtain g0 where g0: "Game_new = Inr g0"
    "player g0 = \<lparr>currentLocation = Some start_cell, inventory = []\<rparr>"
    "allRooms g0 = world_rooms"
    by blast
  have loc0: "currentLocation (player g0) = Some 0" "0 < length (allRooms g0)"
    using g0 by (simp_all add: start_cell_def length_world_rooms)
  have items0: "items (allRooms g0 ! 0) = [] @ torch # [bed]"
    using g0 by (simp add: world_rooms_start)
  have torch: "getNameLower torch = map tolower ''Dim Torch''" "takeable torch"
    "Item.name torch = ''Dim Torch''"
    by (simp_all add: item_names_lower tolower_Char) (simp_all add: torch_def Item_new_def)
  define g1 where "g1 = g0\<lparr>allRooms := (allRooms g0)[0 := (allRooms g0 ! 0)\<lparr>items := [] @ [bed]\<rparr>],
                           player := (player g0)\<lparr>inventory := inventory (player g0) @ [torch]\<rparr>,
                           cout := cout g0 @ ''You picked up the '' @ Item.name torch @ ''.'' @ endl\<rparr>"
  from take_outcomes [OF loc0, of "''Dim Torch''", THEN conjunct2, rule_format, of "[]" torch "[bed]"]
    items0 torch
  have take1: "Player_take ''Dim Torch'' g0 = Inr g1"
    by (simp add: g1_def)
  have g1: "inventory (player g1) = [torch]" "items (allRooms g1 ! 0) = [] @ bed # []"
    "currentLocation (player g1) = Some 0" "0 < length (allRooms g1)"
    "cout g1 = cout g0 @ ''You picked up the Dim Torch.'' @ endl"
    using g0 loc0 by (simp_all add: g1_def torch)
  have bed: "getNameLower bed = map tolower ''straw BED''" "\<not> takeable bed"
    "Item.name bed = ''Straw Bed''"
    by (simp_all add: item_names_lower tolower_Char) (simp_all add: bed_def Item_new_def)
  from take_outcomes [OF g1(3,4), of "''straw BED''", THEN conjunct2, rule_format, of "[]" bed "[]"]
    g1(2) bed
  have take2: "Player_take ''straw BED'' g1
                 = Inr (g1\<lparr>cout := cout g1 @ ''You can't take the Straw Bed.'' @ endl\<rparr>)"
    by simp
  have "\<forall>x \<in> set (items (allRooms g1 ! 0)). getNameLower x \<noteq> map tolower ''sword''"
    using g1(2) by (simp add: item_names_lower tolower_Char)
  with take_outcomes [OF g1(3,4), of "''sword''", THEN conjunct1]
  have take3: "Player_take ''sword'' g1
         = Inr (g1\<lparr>cout := cout g1 @ ''You don't see a '' @ [CHR 0x27] @ ''sword'' @ [CHR 0x27]
                                 @ '' here to take.'' @ endl\<rparr>)"
    by simp
  from g0(1) take1 g1 take2 take3 show ?thesis
    by (auto simp: start_cell_def)
qed

subsection \<open>\<^verbatim>\<open>Player::go\<close>\<close>

lemma Player_go_blocked:
  assumes "currentLocation (player g) = Some loc" and "loc < length (allRooms g)"
    and "Room_getExit (allRooms g ! loc) (map tolower direction) = None"
  shows "Player_go direction g = Inr (g\<lparr>cout := cout g @ ''You can't go that way.'' @ endl\<rparr>)"
  using assms by (simp add: Player_go_def deref_valid print_def)

lemma Player_go_moves:
  assumes "currentLocation (player g) = Some loc" and "loc < length (allRooms g)"
    and "Room_getExit (allRooms g ! loc) (map tolower direction) = Some next"
    and "next < length (allRooms g)"
    and "Room_look (allRooms g) (allRooms g ! next) = Inr text"
  shows "Player_go direction g =
           Inr (g\<lparr>player := (player g)\<lparr>currentLocation := Some next\<rparr>,
                  cout := cout g @ ''You move '' @ map tolower direction @ ''...'' @ endl @ endl
                          @ text\<rparr>)"
  using assms by (simp add: Player_go_def Player_moveTo_def deref_valid print_def)

text \<open>
  Claim C4: with the player in a room of the game, \<^verbatim>\<open>go\<close> looks the lowercased direction
  up in the exits of that room. When no exit (or a null one) is found it prints "You
  can't go that way." and changes nothing else. When the exit leads to a room, the
  player's current room becomes exactly that room, and after the "You move" line the
  description of the new room is printed, as \<^verbatim>\<open>look\<close> gives it.
\<close>

theorem go_outcomes:
  assumes "currentLocation (player g) = Some loc" and "loc < length (allRooms g)"
  shows "(Room_getExit (allRooms g ! loc) (map tolower direction) = None \<longrightarrow>
            Player_go direction g = Inr (g\<lparr>cout := cout g @ ''You can't go that way.'' @ endl\<rparr>))
       \<and> (\<forall>next text.
            Room_getExit (allRooms g ! loc) (map tolower direction) = Some next
            \<and> next < length (allRooms g)
            \<and> Room_look (allRooms g) (allRooms g ! next) = Inr text
            \<longrightarrow>
            Player_go direction g =
              Inr (g\<lparr>player := (player g)\<lparr>currentLocation := Some next\<rparr>,
                     cout := cout g @ ''You move '' @ map tolower direction @ ''...'' @ endl @ endl
                             @ text\<rparr>))"
  using assms by (auto simp: Player_go_blocked Player_go_moves)

lemma world_rooms_corridor:
  "world_rooms ! Suc 0 = \<lparr>Room.name = ''Narrow Corridor'', description = corridor_1_description,
        exits = [(''north'', Some guard_room), (''south'', Some start_cell)],
        items = []\<rparr>"
  by (simp add: world_rooms_eq)

lemma world_rooms_guard_room_name: "Room.name (world_rooms ! 2) = ''Guard Room''"
  by (simp add: world_rooms_eq)

lemma look_corridor:
  "Room_look world_rooms (world_rooms ! Suc 0) = Inr
     (printSeparator CHR ''-'' 50
      @ ''Location: Narrow Corridor'' @ endl
      @ printSeparator CHR ''-'' 50
      @ corridor_1_description @ endl
      @ endl @ ''The room seems empty of loose items.'' @ endl
      @ endl @ ''Exits:'' @ endl
      @ '' - north (Guard Room)'' @ endl
      @ '' - south (Damp Cell)'' @ endl
      @ printSeparator CHR ''-'' 50)"
  by (simp add: Room_look_def world_rooms_corridor deref_def length_world_rooms
      guard_room_def start_cell_def world_rooms_start world_rooms_guard_room_name)

text \<open>
  From the starting room, \<^verbatim>\<open>go NORTH\<close> leads to the Narrow Corridor and prints its
  description; there is no way west from the corridor.
\<close>

theorem go_outcomes_witness:
  "\<exists>g0 g1. Game_new = Inr g0
     \<and> Player_go ''NORTH'' g0 = Inr g1
     \<and> currentLocation (player g1) = Some corridor_1
     \<and> allRooms g1 = allRooms g0
     \<and> cout g1 = cout g0 @ ''You move north...'' @ endl @ endl
          @ printSeparator CHR ''-'' 50
          @ ''Location: Narrow Corridor'' @ endl
          @ printSeparator CHR ''-'' 50
          @ corridor_1_description @ endl
          @ endl @ ''The room seems empty of loose items.'' @ endl
          @ endl @ ''Exits:'' @ endl
          @ '' - north (Guard Room)'' @ endl
          @ '' - south (Damp Cell)'' @ endl
          @ printSeparator CHR ''-'' 50
     \<and> Player_go ''west'' g1 = Inr (g1\<lparr>cout := cout g1 @ ''You can't go that way.'' @ endl\<rparr>)"
proof -
  from Game_new_facts obtain g0 where g0: "Game_new = Inr g0"
    "player g0 = \<lparr>currentLocation = Some start_cell, inventory = []\<rparr>"
    "allRooms g0 = world_rooms"
    by blast
  have loc0: "currentLocation (player g0) = Some 0" "0 < length (allRooms g0)"
    using g0 by (simp_all add: start_cell_def length_world_rooms)
  have exit0: "Room_getExit (allRooms g0 ! 0) (map tolower ''NORTH'') = Some (Suc 0)"
    using g0 by (simp add: world_rooms_start Room_getExit_def tolower_Char corridor_1_def)
  have valid1: "Suc 0 < length (allRooms g0)"
    using g0 by (simp add: length_world_rooms)
  have look1: "Room_look (allRooms g0) (allRooms g0 ! Suc 0) = Inr
     (printSeparator CHR ''-'' 50
      @ ''Location: Narrow Corridor'' @ endl
      @ printSeparator CHR ''-'' 50
      @ corridor_1_description @ endl
      @ endl @ ''The room seems empty of loose items.'' @ endl
      @ endl @ ''Exits:'' @ endl
      @ '' - north (Guard Room)'' @ endl
      @ '' - south (Damp Cell)'' @ endl
      @ printSeparator CHR ''-'' 50)"
    by (simp only: g0 look_corridor)
  define g1 where "g1 = g0\<lparr>player := (player g0)\<lparr>currentLocation := Some (Suc 0)\<rparr>,
     cout := cout g0 @ ''You move '' @ map tolower ''NORTH'' @ ''...'' @ endl @ endl
        @ (printSeparator CHR ''-'' 50
      @ ''Location: Narrow Corridor'' @ endl
      @ printSeparator CHR ''-'' 50
      @ corridor_1_description @ endl
      @ endl @ ''The room seems empty of loose items.'' @ endl
      @ endl @ ''Exits:'' @ endl
      @ '' - north (Guard Room)'' @ endl
      @ '' - south (Damp Cell)'' @ endl
      @ printSeparator CHR ''-'' 50)\<rparr>"
  from go_outcomes [OF loc0, of "''NORTH''", THEN conjunct2, rule_format, OF conjI [OF exit0 conjI [OF valid1 look1]]]
  have go1: "Player_go ''NORTH'' g0 = Inr g1"
    by (simp only: g1_def)
  have g1: "currentLocation (player g1) = Some (Suc 0)" "Suc 0 < length (allRooms g1)"
    "allRooms g1 = allRooms g0"
    using valid1 by (simp_all add: g1_def)
  have out1: "cout g1 = cout g0 @ ''You move north...'' @ endl @ endl
          @ printSeparator CHR ''-'' 50
          @ ''Location: Narrow Corridor'' @ endl
          @ printSeparator CHR ''-'' 50
          @ corridor_1_description @ endl
          @ endl @ ''The room seems empty of loose items.'' @ endl
          @ endl @ ''Exits:'' @ endl
          @ '' - north (Guard Room)'' @ endl
          @ '' - south (Damp Cell)'' @ endl
          @ printSeparator CHR ''-'' 50"
    by (simp add: g1_def tolower_Char)
  have "Room_getExit (allRooms g1 ! Suc 0) (map tolower ''west'') = None"
    using g0 by (simp add: g1 world_rooms_corridor Room_getExit_def tolower_Char)
  with go_outcomes [OF g1(1,2), of "''west''", THEN conjunct1]
  have go2: "Player_go ''west'' g1 = Inr (g1\<lparr>cout := cout g1 @ ''You can't go that way.'' @ endl\<rparr>)"
    by simp
  from g0(1) go1 g1 out1 go2 show ?thesis
    by (auto simp: corridor_1_def)
qed

subsection \<open>The parser\<close>

lemma parseInput_verb_empty: "fst (parseInput line) = [] \<longleftrightarrow> (\<forall>c \<in> set line. isspace c)"
proof -
  have "takeWhile (\<lambda>c. \<not> isspace c) (dropWhile isspace line) = []
          \<longleftrightarrow> dropWhile isspace line = []"
  proof (cases "dropWhile isspace line")
    case Nil
    then show ?thesis by (simp only: takeWhile.simps)
  next
    case (Cons c cs)
    with hd_dropWhile [of isspace line] have "\<not> isspace c"
      by simp
    with Cons show ?thesis
      by simp
  qed
  then show ?thesis
    by (simp add: parseInput_def Let_def dropWhile_eq_Nil_conv)
qed

lemma parseInput_Nil: "parseInput [] = ([], [])"
  by (simp add: parseInput_def)

subsection \<open>One turn of the loop of \<^verbatim>\<open>Game::run\<close>\<close>

lemma run_loop_over: "gameOver g \<Longrightarrow> run_loop g cin = Inr g"
  by (simp add: run_loop.simps)

lemma run_loop_eof:
  "\<not> gameOver g \<Longrightarrow>
   run_loop g [] =
     Inr (g\<lparr>cout := cout g @ endl @ ''> '' @ ''Error reading input or EOF detected. Quitting.''
                        @ endl\<rparr>)"
  by (simp add: run_loop.simps [of g "[]"] print_def)

lemma run_loop_empty_line:
  "\<not> gameOver g \<Longrightarrow> run_loop g ([] # cin) = run_loop (g\<lparr>cout := cout g @ endl @ ''> ''\<rparr>) cin"
  by (simp add: run_loop.simps [of g "[] # cin"] print_def)

lemma run_loop_command:
  assumes "\<not> gameOver g" and "parseInput line = (verb, noun)" and "verb \<noteq> []"
  shows "run_loop g (line # cin) =
           (case handleCommand verb noun (g\<lparr>cout := cout g @ endl @ ''> ''\<rparr>) cin of
              Inl f \<Rightarrow> Inl f
            | Inr (g2, cin2) \<Rightarrow> run_loop g2 cin2)"
proof -
  from assms have "line \<noteq> []"
    by (auto simp: parseInput_Nil)
  with assms show ?thesis
    by (simp add: run_loop.simps [of g "line # cin"] print_def)
qed

lemma run_loop_whitespace_line:
  assumes "\<not> gameOver g" and "line \<noteq> []" and "\<forall>c \<in> set line. isspace c"
  shows "run_loop g (line # cin) =
           run_loop (if \<exists>c \<in> set line. c \<noteq> CHR '' ''
                     then g\<lparr>cout := cout g @ endl @ ''> ''
                                         @ ''Please enter a valid command. Try 'help'.'' @ endl\<rparr>
                     else g\<lparr>cout := cout g @ endl @ ''> ''\<rparr>) cin"
proof -
  from assms(3) have "fst (parseInput line) = []"
    by (simp add: parseInput_verb_empty)
  then obtain noun where "parseInput line = ([], noun)"
    by (cases "parseInput line") simp
  with assms(1,2) show ?thesis
    by (simp add: run_loop.simps [of g "line # cin"] print_def)
qed

text \<open>A line of spaces only is skipped without a message.\<close>

lemma run_loop_spaces_line:
  assumes "\<not> gameOver g" and "\<forall>c \<in> set line. c = CHR '' ''"
  shows "run_loop g (line # cin) = run_loop (g\<lparr>cout := cout g @ endl @ ''> ''\<rparr>) cin"
proof (cases "line = []")
  case True
  with assms(1) show ?thesis
    by (simp add: run_loop_empty_line)
next
  case False
  from assms(2) have "\<forall>c \<in> set line. isspace c"
    by (simp add: isspace_def)
  from run_loop_whitespace_line [OF assms(1) False this] assms(2) show ?thesis
    by auto
qed

subsection \<open>The quit flow\<close>

lemma handleCommand_quit:
  assumes "verb = ''quit'' \<or> verb = ''exit''"
  shows "handleCommand verb noun g (answer # rest) =
           (if map tolower answer = ''yes'' \<or> map tolower answer = ''y''
            then Inr (g\<lparr>gameOver := True,
                        cout := cout g @ ''Are you sure you want to quit? (yes/no): ''
                                @ endl @ ''Goodbye! Thanks for playing.'' @ endl\<rparr>, rest)
            else Inr (g\<lparr>cout := cout g @ ''Are you sure you want to quit? (yes/no): ''
                                @ ''Okay, continuing game.'' @ endl\<rparr>, rest))"
  using assms by (auto simp: handleCommand_def print_def Let_def)

text \<open>
  Claim C5: a line whose verb is \<^verbatim>\<open>quit\<close> or \<^verbatim>\<open>exit\<close> prints the question and reads the
  next line as the answer. When the lowercased answer is \<^verbatim>\<open>yes\<close> or \<^verbatim>\<open>y\<close> the game is over
  and the loop returns without reading the lines that follow. With any other answer the
  only change is the printed text, and the loop goes on with the following lines as it
  would have without the quit. Once the game is over the loop reads and changes nothing.
\<close>

theorem quit_flow:
  assumes "\<not> gameOver g"
    and "fst (parseInput line) = ''quit'' \<or> fst (parseInput line) = ''exit''"
  shows "(map tolower answer = ''yes'' \<or> map tolower answer = ''y'' \<longrightarrow>
            run_loop g (line # answer # rest) =
              Inr (g\<lparr>gameOver := True,
                     cout := cout g @ endl @ ''> '' @ ''Are you sure you want to quit? (yes/no): ''
                             @ endl @ ''Goodbye! Thanks for playing.'' @ endl\<rparr>))
       \<and> (map tolower answer \<noteq> ''yes'' \<and> map tolower answer \<noteq> ''y'' \<longrightarrow>
            run_loop g (line # answer # rest) =
              run_loop (g\<lparr>cout := cout g @ endl @ ''> ''
                                   @ ''Are you sure you want to quit? (yes/no): ''
                                   @ ''Okay, continuing game.'' @ endl\<rparr>) rest)
       \<and> (\<forall>(over::Game) cin. gameOver over \<longrightarrow> run_loop over cin = Inr over)"
proof -
  obtain verb noun where parsed: "parseInput line = (verb, noun)"
    by (cases "parseInput line")
  with assms(2) have verb: "verb = ''quit'' \<or> verb = ''exit''"
    by simp
  then have "verb \<noteq> []"
    by auto
  from run_loop_command [OF assms(1) parsed this]
  have step: "run_loop g (line # answer # rest) =
           (case handleCommand verb noun (g\<lparr>cout := cout g @ endl @ ''> ''\<rparr>) (answer # rest) of
              Inl f \<Rightarrow> Inl f
            | Inr (g2, cin2) \<Rightarrow> run_loop g2 cin2)" .
  show ?thesis
  proof (intro conjI impI allI)
    assume "map tolower answer = ''yes'' \<or> map tolower answer = ''y''"
    then show "run_loop g (line # answer # rest) =
              Inr (g\<lparr>gameOver := True,
                     cout := cout g @ endl @ ''> '' @ ''Are you sure you want to quit? (yes/no): ''
                             @ endl @ ''Goodbye! Thanks for playing.'' @ endl\<rparr>)"
      by (simp add: step handleCommand_quit [OF verb] run_loop_over)
  next
    assume "map tolower answer \<noteq> ''yes'' \<and> map tolower answer \<noteq> ''y''"
    then show "run_loop g (line # answer # rest) =
              run_loop (g\<lparr>cout := cout g @ endl @ ''> ''
                                   @ ''Are you sure you want to quit? (yes/no): ''
                                   @ ''Okay, continuing game.'' @ endl\<rparr>) rest"
      by (simp add: step handleCommand_quit [OF verb])
  next
    fix over :: Game and cin
    assume "gameOver over"
    then show "run_loop over cin = Inr over"
      by (rule run_loop_over)
  qed
qed

lemma parseInput_examples:
  "parseInput ''quit'' = (''quit'', [])"
  "parseInput ''EXIT'' = (''exit'', [])"
  "parseInput ''take Dim Torch'' = (''take'', ''Dim Torch'')"
  "parseInput [CHR 0x09] = ([], [])"
  by (simp_all add: parseInput_def isspace_def Let_def tolower_Char less_eq_char_def)

text \<open>
  In the fresh game: \<^verbatim>\<open>quit\<close> answered with \<^verbatim>\<open>no\<close> goes on, so that the torch is taken by
  the next command; \<^verbatim>\<open>EXIT\<close> answered with \<^verbatim>\<open>Y\<close> ends the game, and the line after it is
  never read.
\<close>

theorem quit_flow_witness:
  "\<exists>g0 g. Game_new = Inr g0
     \<and> run_loop g0 [''quit'', ''no'', ''take Dim Torch'', ''EXIT'', ''Y'', ''take Dim Torch''] = Inr g
     \<and> gameOver g
     \<and> inventory (player g) = [torch]
     \<and> items (allRooms g ! start_cell) = [bed]"
proof -
  from Game_new_facts obtain g0 where g0: "Game_new = Inr g0"
    "player g0 = \<lparr>currentLocation = Some start_cell, inventory = []\<rparr>"
    "allRooms g0 = world_rooms" "\<not> gameOver g0"
    by blast
  let ?rest2 = "[''EXIT'', ''Y'', ''take Dim Torch'']"
  let ?rest1 = "''take Dim Torch'' # ?rest2"
  define gA where "gA = g0\<lparr>cout := cout g0 @ endl @ ''> ''
                                   @ ''Are you sure you want to quit? (yes/no): ''
                                   @ ''Okay, continuing game.'' @ endl\<rparr>"
  have quit: "fst (parseInput ''quit'') = ''quit'' \<or> fst (parseInput ''quit'') = ''exit''"
    by (simp add: parseInput_examples)
  have no: "map tolower ''no'' \<noteq> ''yes'' \<and> map tolower ''no'' \<noteq> ''y''"
    by (simp add: tolower_Char)
  from quit_flow [OF g0(4) quit, of "''no''" ?rest1, THEN conjunct2, THEN conjunct1, rule_format, OF no]
  have step1: "run_loop g0 (''quit'' # ''no'' # ?rest1) = run_loop gA ?rest1"
    by (simp only: gA_def)
  define gA' where "gA' = gA\<lparr>cout := cout gA @ endl @ ''> ''\<rparr>"
  have A': "currentLocation (player gA') = Some 0" "0 < length (allRooms gA')"
    "items (allRooms gA' ! 0) = [] @ torch # [bed]" "\<not> gameOver gA" "inventory (player gA') = []"
    using g0 by (simp_all add: gA'_def gA_def start_cell_def length_world_rooms world_rooms_start)
  have torch: "getNameLower torch = map tolower ''Dim Torch''" "takeable torch"
    by (simp_all add: getNameLower_def torch_def Item_new_def tolower_Char)
  define gB where "gB = gA'\<lparr>allRooms := (allRooms gA')[0 := (allRooms gA' ! 0)\<lparr>items := [] @ [bed]\<rparr>],
                  player := (player gA')\<lparr>inventory := inventory (player gA') @ [torch]\<rparr>,
                  cout := cout gA' @ ''You picked up the '' @ Item.name torch @ ''.'' @ endl\<rparr>"
  have "Player_take ''Dim Torch'' gA' = Inr gB"
    using Player_take_success [OF A'(1,2,3) torch(1) _ torch(2)] by (simp add: gB_def)
  then have cmd: "handleCommand ''take'' ''Dim Torch'' gA' ?rest2 = Inr (gB, ?rest2)"
    by (simp add: handleCommand_def no_input_def)
  have step2: "run_loop gA ?rest1 = run_loop gB ?rest2"
    using run_loop_command [OF A'(4) parseInput_examples(3), of ?rest2] cmd
    by (simp add: gA'_def)
  have B: "\<not> gameOver gB" "inventory (player gB) = [torch]" "items (allRooms gB ! 0) = [bed]"
    using A' by (simp_all add: gB_def gA'_def)
  have exit: "fst (parseInput ''EXIT'') = ''quit'' \<or> fst (parseInput ''EXIT'') = ''exit''"
    by (simp add: parseInput_examples)
  have yes: "map tolower ''Y'' = ''yes'' \<or> map tolower ''Y'' = ''y''"
    by (simp add: tolower_Char)
  define g where "g = gB\<lparr>gameOver := True,
                     cout := cout gB @ endl @ ''> '' @ ''Are you sure you want to quit? (yes/no): ''
                             @ endl @ ''Goodbye! Thanks for playing.'' @ endl\<rparr>"
  from quit_flow [OF B(1) exit, of "''Y''" "[''take Dim Torch'']", THEN conjunct1, rule_format, OF yes]
  have step3: "run_loop gB ?rest2 = Inr g"
    by (simp only: g_def)
  have "gameOver g" "inventory (player g) = [torch]" "items (allRooms g ! 0) = [bed]"
    using B by (simp_all add: g_def)
  with g0(1) step1 step2 step3 show ?thesis
    by (auto simp: start_cell_def)
qed

text \<open>
  Claim C7 on the code: a line that holds a single tab is whitespace only, and the loop
  answers it with the "Please enter a valid command" message before it prompts again.
  The test before the message looks for a character other than the space, not for a
  character that is no whitespace.
\<close>

theorem run_loop_tab_line:
  "\<exists>g0. Game_new = Inr g0
     \<and> isspace (CHR 0x09)
     \<and> run_loop g0 [[CHR 0x09]] =
         Inr (g0\<lparr>cout := cout g0 @ endl @ ''> ''
                          @ ''Please enter a valid command. Try 'help'.'' @ endl
                          @ endl @ ''> ''
                          @ ''Error reading input or EOF detected. Quitting.'' @ endl\<rparr>)"
proof -
  from Game_new_facts obtain g0 where g0: "Game_new = Inr g0" "\<not> gameOver g0"
    by blast
  have ws: "isspace (CHR 0x09)"
    by (simp add: isspace_def less_eq_char_def)
  then have "\<forall>c \<in> set [CHR 0x09]. isspace c"
    by simp
  from run_loop_whitespace_line [OF g0(2) _ this, of "[]"]
  have "run_loop g0 [[CHR 0x09]] =
          run_loop (g0\<lparr>cout := cout g0 @ endl @ ''> ''
                          @ ''Please enter a valid command. Try 'help'.'' @ endl\<rparr>) []"
    by simp
  with g0(2) have "run_loop g0 [[CHR 0x09]] =
         Inr (g0\<lparr>cout := cout g0 @ endl @ ''> ''
                          @ ''Please enter a valid command. Try 'help'.'' @ endl
                          @ endl @ ''> ''
                          @ ''Error reading input or EOF detected. Quitting.'' @ endl\<rparr>)"
    by (simp add: run_loop_eof)
  with g0(1) ws show ?thesis
    by blast
qed

end
